theory Spec2Isabelle
  imports Main "HOL-Library.AList"
begin

section \<open>Go strings and maps\<close>

text \<open>
  A Go string is a sequence of bytes: \<^typ>\<open>string\<close>.  A Go map from strings to strings is an
  association list with pairwise different keys; the order of the list stands for the order
  in which a \<open>range\<close> loop happens to visit the entries, which Go leaves open.  Every theorem
  below holds for each such list, hence for each iteration order.  \<open>m[k] = v\<close> is
  \<^const>\<open>AList.update\<close>, \<open>delete(m, k)\<close> is \<^const>\<open>AList.delete\<close>, \<open>m[k]\<close> is \<^const>\<open>map_of\<close>.
  The schema declares maps whose elements are strings (\<open>TypeMap\<close> of \<open>TypeString\<close>), so the
  type assertions \<open>v.(string)\<close> of the source cannot fail and values are strings here.
\<close>

type_synonym gomap = "(string \<times> string) list"

definition keys :: "gomap \<Rightarrow> string list" where
  "keys m = map fst m"

text \<open>\<open>strings.HasPrefix\<close> and \<open>strings.TrimPrefix\<close> of the Go library.\<close>

definition HasPrefix :: "string \<Rightarrow> string \<Rightarrow> bool" where
  "HasPrefix s p = (length p \<le> length s \<and> take (length p) s = p)"

definition TrimPrefix :: "string \<Rightarrow> string \<Rightarrow> string" where
  "TrimPrefix s p = (if HasPrefix s p then drop (length p) s else s)"

text \<open>\<open>aws.StringValue\<close>: the string a pointer holds, the empty string for \<open>nil\<close>.\<close>

definition StringValue :: "string option \<Rightarrow> string" where
  "StringValue p = (case p of None \<Rightarrow> [] | Some s \<Rightarrow> s)"

section \<open>Cognito user attributes\<close>

definition standardAttributeKeys :: "string list" where
  "standardAttributeKeys =
    [''address'', ''birthdate'', ''email'', ''email_verified'', ''gender'', ''given_name'',
     ''family_name'', ''locale'', ''middle_name'', ''name'', ''nickname'', ''phone_number'',
     ''phone_number_verified'', ''picture'', ''preferred_username'', ''profile'', ''sub'',
     ''updated_at'', ''website'', ''zoneinfo'']"

text \<open>The loop \<open>for _, attribute := range standardAttributeKeys\<close> with its early return.\<close>

fun matchesAny :: "string \<Rightarrow> string list \<Rightarrow> bool" where
  "matchesAny input [] = False"
| "matchesAny input (attribute # rest) = (if input = attribute then True else matchesAny input rest)"

definition UserAttributeKeyMatchesStandardAttribute :: "string \<Rightarrow> bool" where
  "UserAttributeKeyMatchesStandardAttribute input =
     (if length input = 0 then False else matchesAny input standardAttributeKeys)"

text \<open>
  \<open>cognitoidentityprovider.AttributeType\<close>: both fields are pointers to strings.  The elements
  of a \<open>[]*AttributeType\<close> are taken to be non-nil, as the SDK builds them.
\<close>

datatype AttributeType = AttributeType (Name: "string option") (Value: "string option")

text \<open>
  \<open>expandAttribute\<close>: the name written to the service for the key \<open>k\<close> of the configuration,
  then the loop over the map, appending to \<open>apiList\<close>.  A nil slice and an empty one are both \<open>[]\<close>.
\<close>

definition expandName :: "string \<Rightarrow> string" where
  "expandName k =
     (if \<not> UserAttributeKeyMatchesStandardAttribute k \<and> \<not> HasPrefix k ''custom:''
      then ''custom:'' @ k else k)"

fun expandAttribute_loop :: "gomap \<Rightarrow> AttributeType list \<Rightarrow> AttributeType list" where
  "expandAttribute_loop [] apiList = apiList"
| "expandAttribute_loop ((k, v) # rest) apiList =
     expandAttribute_loop rest (apiList @ [AttributeType (Some (expandName k)) (Some v)])"

definition expandAttribute :: "gomap \<Rightarrow> AttributeType list" where
  "expandAttribute tfMap = (if length tfMap = 0 then [] else expandAttribute_loop tfMap [])"

fun expandUserAttributesDelete :: "string list \<Rightarrow> string list" where
  "expandUserAttributesDelete [] = []"
| "expandUserAttributesDelete (v # rest) =
     (if \<not> UserAttributeKeyMatchesStandardAttribute v \<and> \<not> HasPrefix v ''custom:''
      then (''custom:'' @ v) # expandUserAttributesDelete rest
      else v # expandUserAttributesDelete rest)"

text \<open>\<open>flattenUserAttributes\<close>: the loop over \<open>apiList\<close>, writing into \<open>tfMap\<close>.\<close>

fun flattenUserAttributes_loop :: "AttributeType list \<Rightarrow> gomap \<Rightarrow> gomap" where
  "flattenUserAttributes_loop [] tfMap = tfMap"
| "flattenUserAttributes_loop (apiAttribute # rest) tfMap =
     (case Name apiAttribute of
        None \<Rightarrow> flattenUserAttributes_loop rest tfMap
      | Some n \<Rightarrow>
          if UserAttributeKeyMatchesStandardAttribute n
          then flattenUserAttributes_loop rest
                 (AList.update (StringValue (Name apiAttribute)) (StringValue (Value apiAttribute)) tfMap)
          else flattenUserAttributes_loop rest
                 (AList.update (TrimPrefix (TrimPrefix (StringValue (Name apiAttribute)) ''dev:'') ''custom:'')
                    (StringValue (Value apiAttribute)) tfMap))"

definition flattenUserAttributes :: "AttributeType list \<Rightarrow> gomap" where
  "flattenUserAttributes apiList = flattenUserAttributes_loop apiList []"

fun retrieveUserSub :: "AttributeType list \<Rightarrow> string" where
  "retrieveUserSub [] = []"
| "retrieveUserSub (attr # rest) =
     (if StringValue (Name attr) = ''sub'' then StringValue (Value attr) else retrieveUserSub rest)"

fun expandUserClientMetadata_loop :: "gomap \<Rightarrow> gomap \<Rightarrow> gomap" where
  "expandUserClientMetadata_loop [] apiMap = apiMap"
| "expandUserClientMetadata_loop ((k, v) # rest) apiMap =
     expandUserClientMetadata_loop rest (AList.update k v apiMap)"

definition expandUserClientMetadata :: "gomap \<Rightarrow> gomap" where
  "expandUserClientMetadata tfMap = expandUserClientMetadata_loop tfMap []"

text \<open>
  \<open>expandUserDesiredDeliveryMediums\<close>: a \<open>schema.Set\<close> of strings is the list \<open>tfSet.List()\<close>
  gives.
\<close>

fun expandUserDesiredDeliveryMediums_loop :: "string list \<Rightarrow> string list \<Rightarrow> string list" where
  "expandUserDesiredDeliveryMediums_loop [] apiList = apiList"
| "expandUserDesiredDeliveryMediums_loop (elem # rest) apiList =
     expandUserDesiredDeliveryMediums_loop rest (apiList @ [elem])"

definition expandUserDesiredDeliveryMediums :: "string list \<Rightarrow> string list" where
  "expandUserDesiredDeliveryMediums tfSet = expandUserDesiredDeliveryMediums_loop tfSet []"

section \<open>Attribute reconciliation\<close>

text \<open>
  \<open>computeUserAttributesUpdate\<close> receives two Go maps, which are references, and calls
  \<open>delete(oldMap, k)\<close> on the first: the maps live in a store, and the function gets their
  addresses and returns the store it leaves.  \<open>upd\<close> and \<open>del\<close> are made by the function
  itself, so they are plain values.

  The first loop ranges over \<open>newMap\<close>.  \<open>ks\<close> are the keys still to be visited; a key whose
  entry has been removed from \<open>newMap\<close> before the loop reaches it is not produced (this can
  only happen when both arguments are the same map).
\<close>

type_synonym addr = nat
type_synonym store = "addr \<Rightarrow> gomap"

fun computeUserAttributesUpdate_loop ::
  "addr \<Rightarrow> addr \<Rightarrow> string list \<Rightarrow> store \<Rightarrow> gomap \<Rightarrow> store \<times> gomap" where
  "computeUserAttributesUpdate_loop oldMap newMap [] h upd = (h, upd)"
| "computeUserAttributesUpdate_loop oldMap newMap (k # ks) h upd =
     (case map_of (h newMap) k of
        None \<Rightarrow> computeUserAttributesUpdate_loop oldMap newMap ks h upd
      | Some v \<Rightarrow>
          (case map_of (h oldMap) k of
             Some oldV \<Rightarrow>
               computeUserAttributesUpdate_loop oldMap newMap ks
                 (h(oldMap := AList.delete k (h oldMap)))
                 (if oldV \<noteq> v then AList.update k v upd else upd)
           | None \<Rightarrow>
               computeUserAttributesUpdate_loop oldMap newMap ks h (AList.update k v upd)))"

definition computeUserAttributesUpdate :: "store \<Rightarrow> addr \<Rightarrow> addr \<Rightarrow> store \<times> gomap \<times> string list" where
  "computeUserAttributesUpdate h oldMap newMap =
     (case computeUserAttributesUpdate_loop oldMap newMap (keys (h newMap)) h [] of
        (h', upd) \<Rightarrow> (h', upd, keys (h' oldMap)))"

definition emptyStore :: store where
  "emptyStore = (\<lambda>a. [])"

section \<open>Errors, diagnostics and the resource data of the plugin SDK\<close>

text \<open>
  The errors the handlers see: \<open>errors.New\<close>, an error of the AWS SDK with its code and
  message, \<open>resource.NotFoundError\<close> with its \<open>LastError\<close>, and the empty-result error of
  \<open>tfresource.NewEmptyResultError\<close>.
\<close>

datatype error =
    ErrorString string
  | AWSError string string
  | NotFoundError error
  | EmptyResultError

text \<open>\<open>tfawserr.ErrCodeEquals\<close>: the error is an AWS error whose code is one of the given ones.\<close>

fun ErrCodeEquals :: "error \<Rightarrow> string list \<Rightarrow> bool" where
  "ErrCodeEquals (AWSError code msg) codes = (code \<in> set codes)"
| "ErrCodeEquals err codes = False"

text \<open>
  Modelled from the spec: \<open>tfresource.NotFound\<close> (package \<open>internal/tfresource\<close>, not under
  \<open>src/\<close>) decides what the specification calls a "not found" remote error.  The handlers
  below take this predicate as their parameter \<open>notFound\<close>, so what is proved about them
  holds for every such predicate; \<open>NotFound\<close> is the instance used for concrete runs: the
  two errors a finder function returns when the resource does not exist.
\<close>

fun NotFound :: "error \<Rightarrow> bool" where
  "NotFound (NotFoundError err) = True"
| "NotFound EmptyResultError = True"
| "NotFound err = False"

text \<open>
  Modelled from the spec: \<open>sdkdiag.AppendErrorf\<close> and \<open>create.DiagError\<close> (packages
  \<open>internal/errs/sdkdiag\<close> and \<open>internal/create\<close>, not under \<open>src/\<close>) and the SDK's
  \<open>diag.Errorf\<close> and \<open>diag.FromErr\<close>: a failure "is wrapped with a contextual message and
  surfaced as a user-visible diagnostic".  Each of them yields one diagnostic of severity
  \<open>Error\<close>.  \<open>Summary\<close> is the contextual message up to the place where the error is printed,
  \<open>Cause\<close> is the error printed there.
\<close>

datatype severity = Error | Warning

datatype diagnostic = Diagnostic (Severity: severity) (Summary: string) (Cause: error)

type_synonym diagnostics = "diagnostic list"

definition AppendErrorf :: "diagnostics \<Rightarrow> string \<Rightarrow> error \<Rightarrow> diagnostics" where
  "AppendErrorf diags msg err = diags @ [Diagnostic Error msg err]"

definition DiagError :: "string \<Rightarrow> string \<Rightarrow> string \<Rightarrow> string \<Rightarrow> error \<Rightarrow> diagnostics" where
  "DiagError service action resource ident err =
     [Diagnostic Error (action @ '' '' @ service @ '' '' @ resource @ '' ('' @ ident @ '')'') err]"

text \<open>
  \<open>names.CognitoIDP\<close>, \<open>create.ErrActionReading\<close> and \<open>ResNameUser\<close> are constants declared
  outside \<open>src/\<close>.  They only occur in the text of a summary, on which no statement below
  depends.
\<close>

definition CognitoIDP :: string where
  "CognitoIDP = ''CognitoIDP''"

definition ErrActionReading :: string where
  "ErrActionReading = ''reading''"

definition ResNameUser :: string where
  "ResNameUser = ''User''"

definition Errorf :: "string \<Rightarrow> error \<Rightarrow> diagnostics" where
  "Errorf msg err = [Diagnostic Error msg err]"

definition FromErr :: "error \<Rightarrow> diagnostics" where
  "FromErr err = [Diagnostic Error [] err]"

definition HasError :: "diagnostics \<Rightarrow> bool" where
  "HasError diags = list_ex (\<lambda>dg. Severity dg = Error) diags"

text \<open>
  A handler returns its diagnostics, or it panics: the source dereferences pointers of a
  response (\<open>resp.User\<close>, \<open>user.UserCreateDate\<close>) without a nil check.  Writing to the log
  changes neither the state nor the service and is left out.
\<close>

datatype outcome = Return diagnostics | Panic

text \<open>
  \<open>schema.ResourceData\<close> of the plugin SDK, as far as the handlers use it.  \<open>ID\<close> is what \<open>d.Id()\<close>
  reads and \<open>d.SetId\<close> writes, \<open>IsNewResource\<close> the flag \<open>d.IsNewResource()\<close> reads.  \<open>Prior\<close> are
  the attributes of the stored state and \<open>Planned\<close> the ones after the planned change:
  \<open>d.GetChange\<close> returns this pair and \<open>d.HasChange\<close> compares it.  \<open>Values\<close> are the attributes
  \<open>d.Get\<close> and \<open>d.GetOk\<close> read: the planned ones, overwritten by every \<open>d.Set\<close>.  \<open>ID\<close> and
  \<open>Values\<close> are the local state the host stores after the call.
\<close>

record 'a ResourceData =
  ID :: string
  IsNewResource :: bool
  Prior :: 'a
  Planned :: 'a
  Values :: 'a

definition SetId :: "string \<Rightarrow> 'a ResourceData \<Rightarrow> 'a ResourceData" where
  "SetId v d = d\<lparr>ID := v\<rparr>"

text \<open>\<open>d.Set(key, v)\<close>, the key given as the update of its field.\<close>

definition SetValue :: "('a \<Rightarrow> 'a) \<Rightarrow> 'a ResourceData \<Rightarrow> 'a ResourceData" where
  "SetValue upd d = d\<lparr>Values := upd (Values d)\<rparr>"

text \<open>
  \<open>d.HasChange(key)\<close>, the key given as its field: the old and the new value differ.  Two maps
  are compared as maps (\<open>reflect.DeepEqual\<close>), not as lists.
\<close>

definition HasChange :: "('a \<Rightarrow> 'b) \<Rightarrow> 'a ResourceData \<Rightarrow> bool" where
  "HasChange field d = (field (Prior d) \<noteq> field (Planned d))"

definition DeepEqual :: "gomap \<Rightarrow> gomap \<Rightarrow> bool" where
  "DeepEqual a b = list_all (\<lambda>k. map_of a k = map_of b k) (keys a @ keys b)"

definition HasChangeMap :: "('a \<Rightarrow> gomap) \<Rightarrow> 'a ResourceData \<Rightarrow> bool" where
  "HasChangeMap field d = (\<not> DeepEqual (field (Prior d)) (field (Planned d)))"

text \<open>\<open>aws.BoolValue\<close>, and what \<open>d.Set\<close> stores for a nil \<open>*bool\<close>.\<close>

definition BoolValue :: "bool option \<Rightarrow> bool" where
  "BoolValue p = (case p of None \<Rightarrow> False | Some b \<Rightarrow> b)"

text \<open>
  \<open>strings.Split(s, sep)\<close> for a separator of one byte: \<open>cur\<close> is the part being read.
\<close>

fun Split_loop :: "string \<Rightarrow> char \<Rightarrow> string \<Rightarrow> string list" where
  "Split_loop [] sep cur = [cur]"
| "Split_loop (c # s) sep cur =
     (if c = sep then cur # Split_loop s sep [] else Split_loop s sep (cur @ [c]))"

definition Split :: "string \<Rightarrow> char \<Rightarrow> string list" where
  "Split s sep = Split_loop s sep []"

section \<open>The Cognito user resource\<close>

text \<open>The attributes of the schema of \<open>ResourceUser\<close>; a set of strings is a list.\<close>

record UserAttrs =
  attributes :: gomap
  client_metadata :: gomap
  creation_date :: string
  desired_delivery_mediums :: "string list"
  enabled :: bool
  force_alias_creation :: bool
  last_modified_date :: string
  message_action :: string
  mfa_setting_list :: "string list"
  preferred_mfa_setting :: string
  user_pool_id :: string
  username :: string
  status :: string
  sub :: string
  password :: string
  temporary_password :: string
  validation_data :: gomap

text \<open>
  The requests.  The fields of \<open>AdminCreateUserInput\<close> are, in this order: \<open>ClientMetadata\<close>,
  \<open>DesiredDeliveryMediums\<close>, \<open>ForceAliasCreation\<close>, \<open>MessageAction\<close>, \<open>TemporaryPassword\<close>,
  \<open>UserAttributes\<close>, \<open>UserPoolId\<close>, \<open>Username\<close>, \<open>ValidationData\<close>; a field the handler does not
  set is \<open>None\<close> (a nil slice is \<open>[]\<close>).  The other requests carry \<open>Username\<close> and \<open>UserPoolId\<close>
  first, then \<open>Password\<close> and \<open>Permanent\<close>, or \<open>UserAttributes\<close> and \<open>ClientMetadata\<close>, or
  \<open>UserAttributeNames\<close>.
\<close>

datatype AdminCreateUserInput =
  AdminCreateUserInput "gomap option" "string list option" "bool option" "string option"
    "string option" "AttributeType list" string string "AttributeType list"

datatype call =
    AdminCreateUser AdminCreateUserInput
  | AdminDisableUser string string
  | AdminEnableUser string string
  | AdminSetUserPassword string string string bool
  | AdminUpdateUserAttributes string string "AttributeType list" "gomap option"
  | AdminDeleteUserAttributes string string "string list"
  | AdminGetUser string string
  | AdminDeleteUser string string

text \<open>
  The responses, as far as the handlers read them.  A time is held as its RFC 3339 text,
  which is what \<open>Format(time.RFC3339)\<close> returns.
\<close>

datatype UserType = UserType (Username: "string option")

datatype AdminCreateUserOutput = AdminCreateUserOutput (User: "UserType option")

record AdminGetUserOutput =
  Enabled :: "bool option"
  PreferredMfaSetting :: "string option"
  UserAttributes :: "AttributeType list"
  UserCreateDate :: "string option"
  UserLastModifiedDate :: "string option"
  UserMFASettingList :: "string list"
  UserStatus :: "string option"

text \<open>
  The remote service is a parameter: for each operation, the output and the error the call
  returns for a request.  A handler makes no two calls with the same request, so a function
  of the request describes every behaviour of the service within one invocation.
\<close>

record CognitoIDPConn =
  AdminCreateUserWithContext :: "AdminCreateUserInput \<Rightarrow> AdminCreateUserOutput option \<times> error option"
  AdminDisableUserWithContext :: "string \<Rightarrow> string \<Rightarrow> error option"
  AdminEnableUserWithContext :: "string \<Rightarrow> string \<Rightarrow> error option"
  AdminSetUserPasswordWithContext :: "string \<Rightarrow> string \<Rightarrow> string \<Rightarrow> bool \<Rightarrow> error option"
  AdminUpdateUserAttributesWithContext ::
    "string \<Rightarrow> string \<Rightarrow> AttributeType list \<Rightarrow> gomap option \<Rightarrow> error option"
  AdminDeleteUserAttributesWithContext :: "string \<Rightarrow> string \<Rightarrow> string list \<Rightarrow> error option"
  AdminGetUserWithContext :: "string \<Rightarrow> string \<Rightarrow> AdminGetUserOutput option \<times> error option"
  AdminDeleteUserWithContext :: "string \<Rightarrow> string \<Rightarrow> error option"

text \<open>
  The remote calls a handler makes are recorded in the order it makes them, each with the
  error it returned (\<open>None\<close> is \<open>nil\<close>).  A remote call has failed when its error is not nil.
\<close>

type_synonym trace = "(call \<times> error option) list"

definition failed :: "('c \<times> error option) list \<Rightarrow> bool" where
  "failed tr = list_ex (\<lambda>entry. snd entry \<noteq> None) tr"

text \<open>A handler has returned an error diagnostic.\<close>

definition returnsError :: "outcome \<Rightarrow> bool" where
  "returnsError out = (case out of Return diags \<Rightarrow> HasError diags | Panic \<Rightarrow> False)"

subsection \<open>Lookup and read\<close>

definition FindUserByTwoPartKey ::
  "CognitoIDPConn \<Rightarrow> string \<Rightarrow> string \<Rightarrow> (error + AdminGetUserOutput) \<times> trace" where
  "FindUserByTwoPartKey conn userPoolID username' =
     (case AdminGetUserWithContext conn username' userPoolID of
        (output, err) \<Rightarrow>
          ((case err of
              Some e \<Rightarrow>
                if ErrCodeEquals e [''UserNotFoundException'', ''ResourceNotFoundException'']
                then Inl (NotFoundError e)
                else Inl e
            | None \<Rightarrow>
                (case output of
                   None \<Rightarrow> Inl EmptyResultError
                 | Some out \<Rightarrow> Inr out)),
           [(AdminGetUser username' userPoolID, err)]))"

text \<open>
  The part of \<open>resourceUserRead\<close> after the lookup.  \<open>d.Set\<close> cannot fail for the values given
  here, which have the types of the schema, so the two branches on its error are left out.
\<close>

definition resourceUserRead_set ::
  "AdminGetUserOutput \<Rightarrow> UserAttrs ResourceData \<Rightarrow> outcome \<times> UserAttrs ResourceData" where
  "resourceUserRead_set user d =
     (let d1 = SetValue (\<lambda>a. a\<lparr>attributes := flattenUserAttributes (UserAttributes user)\<rparr>) d;
          d2 = SetValue (\<lambda>a. a\<lparr>mfa_setting_list := UserMFASettingList user\<rparr>) d1;
          d3 = SetValue (\<lambda>a. a\<lparr>preferred_mfa_setting := StringValue (PreferredMfaSetting user)\<rparr>) d2;
          d4 = SetValue (\<lambda>a. a\<lparr>status := StringValue (UserStatus user)\<rparr>) d3;
          d5 = SetValue (\<lambda>a. a\<lparr>enabled := BoolValue (Enabled user)\<rparr>) d4
      in case UserCreateDate user of
           None \<Rightarrow> (Panic, d5)
         | Some created \<Rightarrow>
             (let d6 = SetValue (\<lambda>a. a\<lparr>creation_date := created\<rparr>) d5
              in case UserLastModifiedDate user of
                   None \<Rightarrow> (Panic, d6)
                 | Some modified \<Rightarrow>
                     (let d7 = SetValue (\<lambda>a. a\<lparr>last_modified_date := modified\<rparr>) d6;
                          d8 = SetValue (\<lambda>a. a\<lparr>sub := retrieveUserSub (UserAttributes user)\<rparr>) d7
                      in (Return [], d8))))"

definition resourceUserRead ::
  "(error \<Rightarrow> bool) \<Rightarrow> CognitoIDPConn \<Rightarrow> UserAttrs ResourceData
     \<Rightarrow> outcome \<times> UserAttrs ResourceData \<times> trace" where
  "resourceUserRead notFound conn d =
     (case FindUserByTwoPartKey conn (user_pool_id (Values d)) (username (Values d)) of
        (res, tr) \<Rightarrow>
          (case res of
             Inl err \<Rightarrow>
               if \<not> IsNewResource d \<and> notFound err
               then (Return [], SetId [] d, tr)
               else (Return (DiagError CognitoIDP ErrActionReading ResNameUser (username (Values d)) err), d, tr)
           | Inr user \<Rightarrow>
               (case resourceUserRead_set user d of (out, d') \<Rightarrow> (out, d', tr))))"

subsection \<open>Create\<close>

text \<open>\<open>d.GetOk\<close> reports a value that is not the zero value of its type.\<close>

definition resourceUserCreate_params :: "UserAttrs ResourceData \<Rightarrow> AdminCreateUserInput" where
  "resourceUserCreate_params d =
     AdminCreateUserInput
       (if client_metadata (Values d) \<noteq> []
        then Some (expandUserClientMetadata (client_metadata (Values d))) else None)
       (if desired_delivery_mediums (Values d) \<noteq> []
        then Some (expandUserDesiredDeliveryMediums (desired_delivery_mediums (Values d))) else None)
       (if force_alias_creation (Values d) then Some (force_alias_creation (Values d)) else None)
       (if message_action (Values d) \<noteq> [] then Some (message_action (Values d)) else None)
       (if temporary_password (Values d) \<noteq> [] then Some (temporary_password (Values d)) else None)
       (if attributes (Values d) \<noteq> [] then expandAttribute (attributes (Values d)) else [])
       (user_pool_id (Values d))
       (username (Values d))
       (if validation_data (Values d) \<noteq> [] then expandAttribute (validation_data (Values d)) else [])"

definition resourceUserCreate_disable ::
  "CognitoIDPConn \<Rightarrow> UserAttrs ResourceData \<Rightarrow> diagnostics option \<times> trace" where
  "resourceUserCreate_disable conn d =
     (if \<not> enabled (Values d)
      then
        (let err = AdminDisableUserWithContext conn (username (Values d)) (user_pool_id (Values d));
             tr = [(AdminDisableUser (username (Values d)) (user_pool_id (Values d)), err)]
         in case err of
              Some e \<Rightarrow> (Some (AppendErrorf [] (''disabling Cognito User ('' @ ID d @ '')'') e), tr)
            | None \<Rightarrow> (None, tr))
      else (None, []))"

definition resourceUserCreate_password ::
  "CognitoIDPConn \<Rightarrow> UserAttrs ResourceData \<Rightarrow> diagnostics option \<times> trace" where
  "resourceUserCreate_password conn d =
     (if password (Values d) \<noteq> []
      then
        (let err = AdminSetUserPasswordWithContext conn (username (Values d)) (user_pool_id (Values d))
                     (password (Values d)) True;
             tr = [(AdminSetUserPassword (username (Values d)) (user_pool_id (Values d))
                      (password (Values d)) True, err)]
         in case err of
              Some e \<Rightarrow>
                (Some (AppendErrorf [] (''setting Cognito User's password ('' @ ID d @ '')'') e), tr)
            | None \<Rightarrow> (None, tr))
      else (None, []))"

definition resourceUserCreate ::
  "(error \<Rightarrow> bool) \<Rightarrow> CognitoIDPConn \<Rightarrow> UserAttrs ResourceData
     \<Rightarrow> outcome \<times> UserAttrs ResourceData \<times> trace" where
  "resourceUserCreate notFound conn d =
     (let username' = username (Values d);
          userPoolId = user_pool_id (Values d);
          params = resourceUserCreate_params d
      in case AdminCreateUserWithContext conn params of
           (resp, err) \<Rightarrow>
             (let tr0 = [(AdminCreateUser params, err)]
              in case err of
                   Some e \<Rightarrow>
                     (Return (AppendErrorf []
                        (''creating Cognito User ('' @ userPoolId @ ''/'' @ username' @ '')'') e), d, tr0)
                 | None \<Rightarrow>
                     (case resp of
                        None \<Rightarrow> (Panic, d, tr0)
                      | Some r \<Rightarrow>
                          (case User r of
                             None \<Rightarrow> (Panic, d, tr0)
                           | Some u \<Rightarrow>
                               (let d1 = SetId (userPoolId @ ''/'' @ StringValue (Username u)) d
                                in case resourceUserCreate_disable conn d1 of
                                     (Some diags, tr1) \<Rightarrow> (Return diags, d1, tr0 @ tr1)
                                   | (None, tr1) \<Rightarrow>
                                       (case resourceUserCreate_password conn d1 of
                                          (Some diags, tr2) \<Rightarrow> (Return diags, d1, tr0 @ tr1 @ tr2)
                                        | (None, tr2) \<Rightarrow>
                                            (case resourceUserRead notFound conn d1 of
                                               (out, d2, tr3) \<Rightarrow>
                                                 (out, d2, tr0 @ tr1 @ tr2 @ tr3))))))))"

subsection \<open>Update\<close>

text \<open>
  \<open>old, new := d.GetChange("attributes")\<close> builds two maps of its own, here at the addresses
  \<open>0\<close> and \<open>1\<close> of a store that holds nothing else: what \<open>computeUserAttributesUpdate\<close> deletes
  from \<open>old\<close> does not reach the resource data.
\<close>

definition attributesChange :: "UserAttrs ResourceData \<Rightarrow> gomap \<times> string list" where
  "attributesChange d =
     (case computeUserAttributesUpdate
             (emptyStore(0 := attributes (Prior d), 1 := attributes (Planned d))) 0 1 of
        (h', upd, del) \<Rightarrow> (upd, del))"

definition resourceUserUpdate_upsert ::
  "CognitoIDPConn \<Rightarrow> UserAttrs ResourceData \<Rightarrow> gomap \<Rightarrow> diagnostics option \<times> trace" where
  "resourceUserUpdate_upsert conn d upd =
     (if 0 < length upd
      then
        (let metadata = (if client_metadata (Values d) \<noteq> []
                         then Some (expandUserClientMetadata (client_metadata (Values d))) else None);
             err = AdminUpdateUserAttributesWithContext conn (username (Values d))
                     (user_pool_id (Values d)) (expandAttribute upd) metadata;
             tr = [(AdminUpdateUserAttributes (username (Values d)) (user_pool_id (Values d))
                      (expandAttribute upd) metadata, err)]
         in case err of
              Some e \<Rightarrow>
                (Some (AppendErrorf [] (''updating Cognito User Attributes ('' @ ID d @ '')'') e), tr)
            | None \<Rightarrow> (None, tr))
      else (None, []))"

definition resourceUserUpdate_delete ::
  "CognitoIDPConn \<Rightarrow> UserAttrs ResourceData \<Rightarrow> string list \<Rightarrow> diagnostics option \<times> trace" where
  "resourceUserUpdate_delete conn d del =
     (if 0 < length del
      then
        (let err = AdminDeleteUserAttributesWithContext conn (username (Values d))
                     (user_pool_id (Values d)) (expandUserAttributesDelete del);
             tr = [(AdminDeleteUserAttributes (username (Values d)) (user_pool_id (Values d))
                      (expandUserAttributesDelete del), err)]
         in case err of
              Some e \<Rightarrow>
                (Some (AppendErrorf [] (''updating Cognito User Attributes ('' @ ID d @ '')'') e), tr)
            | None \<Rightarrow> (None, tr))
      else (None, []))"

definition resourceUserUpdate_attributes ::
  "CognitoIDPConn \<Rightarrow> UserAttrs ResourceData \<Rightarrow> diagnostics option \<times> trace" where
  "resourceUserUpdate_attributes conn d =
     (if HasChangeMap attributes d
      then
        (case attributesChange d of
           (upd, del) \<Rightarrow>
             (case resourceUserUpdate_upsert conn d upd of
                (Some diags, tr1) \<Rightarrow> (Some diags, tr1)
              | (None, tr1) \<Rightarrow>
                  (case resourceUserUpdate_delete conn d del of
                     (res, tr2) \<Rightarrow> (res, tr1 @ tr2))))
      else (None, []))"

definition resourceUserUpdate_enabled ::
  "CognitoIDPConn \<Rightarrow> UserAttrs ResourceData \<Rightarrow> diagnostics option \<times> trace" where
  "resourceUserUpdate_enabled conn d =
     (if HasChange enabled d
      then
        (if enabled (Values d)
         then
           (let err = AdminEnableUserWithContext conn (username (Values d)) (user_pool_id (Values d));
                tr = [(AdminEnableUser (username (Values d)) (user_pool_id (Values d)), err)]
            in case err of
                 Some e \<Rightarrow> (Some (AppendErrorf [] (''enabling Cognito User ('' @ ID d @ '')'') e), tr)
               | None \<Rightarrow> (None, tr))
         else
           (let err = AdminDisableUserWithContext conn (username (Values d)) (user_pool_id (Values d));
                tr = [(AdminDisableUser (username (Values d)) (user_pool_id (Values d)), err)]
            in case err of
                 Some e \<Rightarrow> (Some (AppendErrorf [] (''disabling Cognito User ('' @ ID d @ '')'') e), tr)
               | None \<Rightarrow> (None, tr)))
      else (None, []))"

text \<open>
  \<open>d.Set(key, nil)\<close> stores the zero value of the type of the key, here the empty string.
\<close>

definition resourceUserUpdate_temporary_password ::
  "CognitoIDPConn \<Rightarrow> UserAttrs ResourceData
     \<Rightarrow> diagnostics option \<times> UserAttrs ResourceData \<times> trace" where
  "resourceUserUpdate_temporary_password conn d =
     (if HasChange temporary_password d
      then
        (let password' = temporary_password (Values d)
         in if password' \<noteq> []
            then
              (let err = AdminSetUserPasswordWithContext conn (username (Values d))
                           (user_pool_id (Values d)) password' False;
                   tr = [(AdminSetUserPassword (username (Values d)) (user_pool_id (Values d))
                            password' False, err)]
               in case err of
                    Some e \<Rightarrow>
                      (Some (AppendErrorf []
                         (''changing Cognito User's temporary password ('' @ ID d @ '')'') e), d, tr)
                  | None \<Rightarrow> (None, d, tr))
            else (None, SetValue (\<lambda>a. a\<lparr>temporary_password := []\<rparr>) d, []))
      else (None, d, []))"

definition resourceUserUpdate_password ::
  "CognitoIDPConn \<Rightarrow> UserAttrs ResourceData
     \<Rightarrow> diagnostics option \<times> UserAttrs ResourceData \<times> trace" where
  "resourceUserUpdate_password conn d =
     (if HasChange password d
      then
        (let password' = password (Values d)
         in if password' \<noteq> []
            then
              (let err = AdminSetUserPasswordWithContext conn (username (Values d))
                           (user_pool_id (Values d)) password' True;
                   tr = [(AdminSetUserPassword (username (Values d)) (user_pool_id (Values d))
                            password' True, err)]
               in case err of
                    Some e \<Rightarrow>
                      (Some (AppendErrorf []
                         (''changing Cognito User's password ('' @ ID d @ '')'') e), d, tr)
                  | None \<Rightarrow> (None, d, tr))
            else (None, SetValue (\<lambda>a. a\<lparr>password := []\<rparr>) d, []))
      else (None, d, []))"

definition resourceUserUpdate ::
  "(error \<Rightarrow> bool) \<Rightarrow> CognitoIDPConn \<Rightarrow> UserAttrs ResourceData
     \<Rightarrow> outcome \<times> UserAttrs ResourceData \<times> trace" where
  "resourceUserUpdate notFound conn d =
     (case resourceUserUpdate_attributes conn d of
        (Some diags, tr1) \<Rightarrow> (Return diags, d, tr1)
      | (None, tr1) \<Rightarrow>
     (case resourceUserUpdate_enabled conn d of
        (Some diags, tr2) \<Rightarrow> (Return diags, d, tr1 @ tr2)
      | (None, tr2) \<Rightarrow>
     (case resourceUserUpdate_temporary_password conn d of
        (Some diags, d3, tr3) \<Rightarrow> (Return diags, d3, tr1 @ tr2 @ tr3)
      | (None, d3, tr3) \<Rightarrow>
     (case resourceUserUpdate_password conn d3 of
        (Some diags, d4, tr4) \<Rightarrow> (Return diags, d4, tr1 @ tr2 @ tr3 @ tr4)
      | (None, d4, tr4) \<Rightarrow>
     (case resourceUserRead notFound conn d4 of
        (out, d5, tr5) \<Rightarrow> (out, d5, tr1 @ tr2 @ tr3 @ tr4 @ tr5))))))"

subsection \<open>Delete and import\<close>

definition resourceUserDelete ::
  "CognitoIDPConn \<Rightarrow> UserAttrs ResourceData \<Rightarrow> outcome \<times> UserAttrs ResourceData \<times> trace" where
  "resourceUserDelete conn d =
     (let err = AdminDeleteUserWithContext conn (username (Values d)) (user_pool_id (Values d));
          tr = [(AdminDeleteUser (username (Values d)) (user_pool_id (Values d)), err)]
      in case err of
           Some e \<Rightarrow> (Return (AppendErrorf [] (''deleting Cognito User ('' @ ID d @ '')'') e), d, tr)
         | None \<Rightarrow> (Return [], d, tr))"

text \<open>
  \<open>resourceUserImport\<close> returns the list of resource data or an error, and leaves \<open>d\<close> in the
  state given second.  The indices \<open>0\<close> and \<open>1\<close> are read after the check of the length.
\<close>

definition resourceUserImport ::
  "UserAttrs ResourceData \<Rightarrow> (error + UserAttrs ResourceData list) \<times> UserAttrs ResourceData" where
  "resourceUserImport d =
     (let idSplit = Split (ID d) CHR ''/''
      in if length idSplit \<noteq> 2
         then (Inl (ErrorString ''error importing Cognito User. Must specify user_pool_id/username''), d)
         else
           (let userPoolId = idSplit ! 0;
                name = idSplit ! 1;
                d1 = SetValue (\<lambda>a. a\<lparr>user_pool_id := userPoolId\<rparr>) d;
                d2 = SetValue (\<lambda>a. a\<lparr>username := name\<rparr>) d1
            in (Inr [d2], d2)))"

subsection \<open>Kinds of remote calls\<close>

text \<open>The calls of a trace that are of a given kind, in the order they were made.\<close>

definition callsOf :: "('c \<Rightarrow> bool) \<Rightarrow> ('c \<times> error option) list \<Rightarrow> 'c list" where
  "callsOf kind tr = filter kind (map fst tr)"

fun isAdminUpdateUserAttributes :: "call \<Rightarrow> bool" where
  "isAdminUpdateUserAttributes (AdminUpdateUserAttributes u p attrs md) = True"
| "isAdminUpdateUserAttributes c = False"

fun isAdminDeleteUserAttributes :: "call \<Rightarrow> bool" where
  "isAdminDeleteUserAttributes (AdminDeleteUserAttributes u p ns) = True"
| "isAdminDeleteUserAttributes c = False"

fun isEnableOrDisable :: "call \<Rightarrow> bool" where
  "isEnableOrDisable (AdminEnableUser u p) = True"
| "isEnableOrDisable (AdminDisableUser u p) = True"
| "isEnableOrDisable c = False"

fun isAdminCreateUser :: "call \<Rightarrow> bool" where
  "isAdminCreateUser (AdminCreateUser params) = True"
| "isAdminCreateUser c = False"

fun isAdminGetUser :: "call \<Rightarrow> bool" where
  "isAdminGetUser (AdminGetUser u p) = True"
| "isAdminGetUser c = False"

text \<open>
  The read at the end of a handler takes the resource out of the state: the handler has
  reached its lookup, the resource is not newly created, and the lookup reports an error
  that is a not-found error.
\<close>

definition removedByRead ::
  "(error \<Rightarrow> bool) \<Rightarrow> CognitoIDPConn \<Rightarrow> UserAttrs ResourceData \<Rightarrow> trace \<Rightarrow> bool" where
  "removedByRead notFound conn d tr =
     (callsOf isAdminGetUser tr \<noteq> [] \<and> \<not> IsNewResource d \<and>
      (case fst (FindUserByTwoPartKey conn (user_pool_id (Values d)) (username (Values d))) of
         Inl err \<Rightarrow> notFound err
       | Inr user \<Rightarrow> False))"


section \<open>The core-network policy attachment resource\<close>

record PolicyAttachmentAttrs =
  core_network_id :: string
  policy_document :: string
  state :: string

datatype CoreNetwork = CoreNetwork (CoreNetworkId: "string option") (State: "string option")

datatype 'j CoreNetworkPolicy = CoreNetworkPolicy (PolicyDocument: 'j)

text \<open>
  The functions the handlers call that are not under \<open>src/\<close> are parameters: the two finder
  functions, \<open>PutAndExecuteCoreNetworkPolicy\<close> and \<open>waitCoreNetworkUpdated\<close> of the package (the
  timeout \<open>d.Timeout(schema.TimeoutUpdate)\<close> handed to the latter is part of the parameter),
  and \<open>protocol.EncodeJSONValue\<close> of the AWS SDK.  A finder returns an error or a value that is
  not nil.  \<open>'j\<close> is the type of a policy document as the service returns it.
\<close>

record 'j NetworkManager =
  FindCoreNetworkByID :: "string \<Rightarrow> error + CoreNetwork"
  FindCoreNetworkPolicyByID :: "string \<Rightarrow> error + 'j CoreNetworkPolicy"
  PutAndExecuteCoreNetworkPolicy :: "string \<Rightarrow> string \<Rightarrow> error option"
  waitCoreNetworkUpdated :: "string \<Rightarrow> error option"
  EncodeJSONValue :: "'j \<Rightarrow> error + string"

datatype nmcall =
    CallFindCoreNetworkByID string
  | CallFindCoreNetworkPolicyByID string
  | CallPutAndExecuteCoreNetworkPolicy string string
  | CallWaitCoreNetworkUpdated string

type_synonym nmtrace = "(nmcall \<times> error option) list"

definition errorOf :: "error + 'a \<Rightarrow> error option" where
  "errorOf res = (case res of Inl err \<Rightarrow> Some err | Inr v \<Rightarrow> None)"

definition resourceCoreNetworkPolicyAttachmentRead_policy ::
  "(error \<Rightarrow> bool) \<Rightarrow> 'j NetworkManager \<Rightarrow> PolicyAttachmentAttrs ResourceData
     \<Rightarrow> outcome \<times> PolicyAttachmentAttrs ResourceData \<times> nmtrace" where
  "resourceCoreNetworkPolicyAttachmentRead_policy notFound conn d =
     (let res = FindCoreNetworkPolicyByID conn (ID d);
          tr = [(CallFindCoreNetworkPolicyByID (ID d), errorOf res)]
      in case res of
           Inl err \<Rightarrow>
             if notFound err
             then (Return [], SetValue (\<lambda>a. a\<lparr>policy_document := []\<rparr>) d, tr)
             else (Return (Errorf (''reading Network Manager Core Network ('' @ ID d @ '') policy'') err),
                   d, tr)
         | Inr coreNetworkPolicy \<Rightarrow>
             (case EncodeJSONValue conn (PolicyDocument coreNetworkPolicy) of
                Inl err \<Rightarrow>
                  (Return (Errorf (''encoding Network Manager Core Network ('' @ ID d
                                     @ '') policy document'') err), d, tr)
              | Inr encodedPolicyDocument \<Rightarrow>
                  (Return [], SetValue (\<lambda>a. a\<lparr>policy_document := encodedPolicyDocument\<rparr>) d, tr)))"

definition resourceCoreNetworkPolicyAttachmentRead ::
  "(error \<Rightarrow> bool) \<Rightarrow> 'j NetworkManager \<Rightarrow> PolicyAttachmentAttrs ResourceData
     \<Rightarrow> outcome \<times> PolicyAttachmentAttrs ResourceData \<times> nmtrace" where
  "resourceCoreNetworkPolicyAttachmentRead notFound conn d =
     (let res = FindCoreNetworkByID conn (ID d);
          tr = [(CallFindCoreNetworkByID (ID d), errorOf res)]
      in case res of
           Inl err \<Rightarrow>
             if \<not> IsNewResource d \<and> notFound err
             then (Return [], SetId [] d, tr)
             else (Return (Errorf (''reading Network Manager Core Network ('' @ ID d @ '')'') err), d, tr)
         | Inr coreNetwork \<Rightarrow>
             (let d1 = SetValue (\<lambda>a. a\<lparr>core_network_id := StringValue (CoreNetworkId coreNetwork)\<rparr>) d;
                  d2 = SetValue (\<lambda>a. a\<lparr>state := StringValue (State coreNetwork)\<rparr>) d1
              in case resourceCoreNetworkPolicyAttachmentRead_policy notFound conn d2 of
                   (out, d3, tr2) \<Rightarrow> (out, d3, tr @ tr2)))"

definition resourceCoreNetworkPolicyAttachmentUpdate ::
  "(error \<Rightarrow> bool) \<Rightarrow> 'j NetworkManager \<Rightarrow> PolicyAttachmentAttrs ResourceData
     \<Rightarrow> outcome \<times> PolicyAttachmentAttrs ResourceData \<times> nmtrace" where
  "resourceCoreNetworkPolicyAttachmentUpdate notFound conn d =
     (if HasChange policy_document d
      then
        (let err = PutAndExecuteCoreNetworkPolicy conn (ID d) (policy_document (Values d));
             tr1 = [(CallPutAndExecuteCoreNetworkPolicy (ID d) (policy_document (Values d)), err)]
         in case err of
              Some e \<Rightarrow> (Return (FromErr e), d, tr1)
            | None \<Rightarrow>
                (let err2 = waitCoreNetworkUpdated conn (ID d);
                     tr2 = tr1 @ [(CallWaitCoreNetworkUpdated (ID d), err2)]
                 in case err2 of
                      Some e \<Rightarrow>
                        (Return (Errorf (''waiting for Network Manager Core Network ('' @ ID d
                                           @ '') update'') e), d, tr2)
                    | None \<Rightarrow>
                        (case resourceCoreNetworkPolicyAttachmentRead notFound conn d of
                           (out, d', tr3) \<Rightarrow> (out, d', tr2 @ tr3))))
      else resourceCoreNetworkPolicyAttachmentRead notFound conn d)"

definition resourceCoreNetworkPolicyAttachmentCreate ::
  "(error \<Rightarrow> bool) \<Rightarrow> 'j NetworkManager \<Rightarrow> PolicyAttachmentAttrs ResourceData
     \<Rightarrow> outcome \<times> PolicyAttachmentAttrs ResourceData \<times> nmtrace" where
  "resourceCoreNetworkPolicyAttachmentCreate notFound conn d =
     resourceCoreNetworkPolicyAttachmentUpdate notFound conn (SetId (core_network_id (Values d)) d)"

text \<open>
  Modelled from the spec: \<open>schema.NoopContext\<close> is a function of the plugin SDK, not under
  \<open>src/\<close>; the specification says "No delete operation (no-op)".  It returns no diagnostics,
  calls nothing and leaves the resource data as they are.
\<close>

definition NoopContext ::
  "'c \<Rightarrow> 'a ResourceData \<Rightarrow> outcome \<times> 'a ResourceData \<times> ('k \<times> error option) list" where
  "NoopContext meta d = (Return [], d, [])"

text \<open>\<open>schema.Resource\<close>: the four handlers of a resource.\<close>

record ('a, 'c, 'k) Resource =
  CreateWithoutTimeout :: "'c \<Rightarrow> 'a ResourceData \<Rightarrow> outcome \<times> 'a ResourceData \<times> ('k \<times> error option) list"
  ReadWithoutTimeout :: "'c \<Rightarrow> 'a ResourceData \<Rightarrow> outcome \<times> 'a ResourceData \<times> ('k \<times> error option) list"
  UpdateWithoutTimeout :: "'c \<Rightarrow> 'a ResourceData \<Rightarrow> outcome \<times> 'a ResourceData \<times> ('k \<times> error option) list"
  DeleteWithoutTimeout :: "'c \<Rightarrow> 'a ResourceData \<Rightarrow> outcome \<times> 'a ResourceData \<times> ('k \<times> error option) list"

definition ResourceCoreNetworkPolicyAttachment ::
  "(error \<Rightarrow> bool) \<Rightarrow> (PolicyAttachmentAttrs, 'j NetworkManager, nmcall) Resource" where
  "ResourceCoreNetworkPolicyAttachment notFound =
     \<lparr>CreateWithoutTimeout = resourceCoreNetworkPolicyAttachmentCreate notFound,
      ReadWithoutTimeout = resourceCoreNetworkPolicyAttachmentRead notFound,
      UpdateWithoutTimeout = resourceCoreNetworkPolicyAttachmentUpdate notFound,
      DeleteWithoutTimeout = NoopContext\<rparr>"

section \<open>Concrete resource data and services\<close>

text \<open>
  Inputs for the concrete runs below: resource data as the host hands them to a handler (the
  values \<open>d.Get\<close> reads are the planned ones), and services that answer every call in a fixed way.
\<close>

definition emptyUserAttrs :: UserAttrs where
  "emptyUserAttrs =
     \<lparr>attributes = [], client_metadata = [], creation_date = [], desired_delivery_mediums = [],
      enabled = True, force_alias_creation = False, last_modified_date = [], message_action = [],
      mfa_setting_list = [], preferred_mfa_setting = [], user_pool_id = [], username = [],
      status = [], sub = [], password = [], temporary_password = [], validation_data = []\<rparr>"

definition aliceAttrs :: UserAttrs where
  "aliceAttrs = emptyUserAttrs\<lparr>user_pool_id := ''pool-1'', username := ''alice''\<rparr>"

definition resourceData :: "string \<Rightarrow> bool \<Rightarrow> 'a \<Rightarrow> 'a \<Rightarrow> 'a ResourceData" where
  "resourceData ident new prior planned =
     \<lparr>ID = ident, IsNewResource = new, Prior = prior, Planned = planned, Values = planned\<rparr>"

definition aliceOutput :: AdminGetUserOutput where
  "aliceOutput =
     \<lparr>Enabled = Some True, PreferredMfaSetting = None,
      UserAttributes = [AttributeType (Some ''sub'') (Some ''1234'')],
      UserCreateDate = Some ''2023-01-01T00:00:00Z'',
      UserLastModifiedDate = Some ''2023-01-02T00:00:00Z'',
      UserMFASettingList = [], UserStatus = Some ''CONFIRMED''\<rparr>"

definition okConn :: CognitoIDPConn where
  "okConn =
     \<lparr>AdminCreateUserWithContext =
        (\<lambda>params. (Some (AdminCreateUserOutput (Some (UserType (Some ''alice'')))), None)),
      AdminDisableUserWithContext = (\<lambda>u p. None),
      AdminEnableUserWithContext = (\<lambda>u p. None),
      AdminSetUserPasswordWithContext = (\<lambda>u p pw perm. None),
      AdminUpdateUserAttributesWithContext = (\<lambda>u p attrs md. None),
      AdminDeleteUserAttributesWithContext = (\<lambda>u p ns. None),
      AdminGetUserWithContext = (\<lambda>u p. (Some aliceOutput, None)),
      AdminDeleteUserWithContext = (\<lambda>u p. None)\<rparr>"

definition userNotFound :: error where
  "userNotFound = AWSError ''UserNotFoundException'' ''User does not exist.''"

definition internalError :: error where
  "internalError = AWSError ''InternalErrorException'' ''internal error''"

text \<open>A service in which the user no longer exists, and one in which disabling fails.\<close>

definition goneConn :: CognitoIDPConn where
  "goneConn = okConn\<lparr>AdminGetUserWithContext := (\<lambda>u p. (None, Some userNotFound))\<rparr>"

definition disableFailsConn :: CognitoIDPConn where
  "disableFailsConn = okConn\<lparr>AdminDisableUserWithContext := (\<lambda>u p. Some internalError)\<rparr>"

definition emptyPolicyAttrs :: PolicyAttachmentAttrs where
  "emptyPolicyAttrs = \<lparr>core_network_id = [], policy_document = [], state = []\<rparr>"

text \<open>A network manager whose core network is gone, and one whose core network has no policy.\<close>

definition goneNetwork :: "string NetworkManager" where
  "goneNetwork =
     \<lparr>FindCoreNetworkByID = (\<lambda>i. Inl (NotFoundError (AWSError ''ResourceNotFoundException'' []))),
      FindCoreNetworkPolicyByID = (\<lambda>i. Inl (NotFoundError (AWSError ''ResourceNotFoundException'' []))),
      PutAndExecuteCoreNetworkPolicy = (\<lambda>i doc. None),
      waitCoreNetworkUpdated = (\<lambda>i. None),
      EncodeJSONValue = (\<lambda>doc. Inr doc)\<rparr>"

definition noPolicyNetwork :: "string NetworkManager" where
  "noPolicyNetwork =
     goneNetwork\<lparr>FindCoreNetworkByID :=
       (\<lambda>i. Inr (CoreNetwork (Some ''core-network-0123456789abcdef0'') (Some ''AVAILABLE'')))\<rparr>"

section \<open>Unfolding the handlers on concrete inputs\<close>

lemmas example_defs =
  resourceData_def aliceAttrs_def emptyUserAttrs_def okConn_def goneConn_def disableFailsConn_def
  aliceOutput_def userNotFound_def internalError_def emptyStore_def emptyPolicyAttrs_def
  goneNetwork_def noPolicyNetwork_def

lemmas handler_defs =
  resourceUserCreate_def resourceUserCreate_params_def resourceUserCreate_disable_def
  resourceUserCreate_password_def resourceUserRead_def resourceUserRead_set_def
  FindUserByTwoPartKey_def resourceUserUpdate_def resourceUserUpdate_attributes_def
  resourceUserUpdate_upsert_def resourceUserUpdate_delete_def resourceUserUpdate_enabled_def
  resourceUserUpdate_temporary_password_def resourceUserUpdate_password_def
  attributesChange_def computeUserAttributesUpdate_def
  SetId_def SetValue_def HasChange_def HasChangeMap_def DeepEqual_def keys_def
  AppendErrorf_def DiagError_def HasError_def returnsError_def failed_def callsOf_def
  removedByRead_def StringValue_def BoolValue_def Let_def

section \<open>Properties of the attribute reconciliation\<close>

lemma map_of_None_keys: "map_of m k = None \<longleftrightarrow> k \<notin> set (keys m)"
  by (simp add: keys_def map_of_eq_None_iff)

lemma dom_keys: "dom (map_of m) = set (keys m)"
  by (simp add: keys_def dom_map_of_conv_image_fst)

lemma filter_delete:
  "filter (\<lambda>p. fst p \<notin> set ks) (AList.delete k m) = filter (\<lambda>p. fst p \<notin> set (k # ks)) m"
  by (induction m) (auto simp: AList.delete_eq)

lemma filter_absent:
  "k \<notin> set (keys m) \<Longrightarrow> filter (\<lambda>p. fst p \<notin> set (k # ks)) m = filter (\<lambda>p. fst p \<notin> set ks) m"
  by (rule filter_cong) (auto simp: keys_def)

text \<open>
  When both arguments are the same map, every key the loop visits is found in \<open>oldMap\<close> with
  an equal value: nothing is put into \<open>upd\<close> and the key is deleted.
\<close>

lemma loop_alias:
  "computeUserAttributesUpdate_loop a a ks h upd = (h(a := filter (\<lambda>p. fst p \<notin> set ks) (h a)), upd)"
proof (induction ks arbitrary: h)
  case Nil
  then show ?case by simp
next
  case (Cons k ks)
  show ?case
  proof (cases "map_of (h a) k")
    case None
    then have "k \<notin> set (keys (h a))" by (simp add: map_of_None_keys)
    then have "filter (\<lambda>p. fst p \<notin> set (k # ks)) (h a) = filter (\<lambda>p. fst p \<notin> set ks) (h a)"
      by (rule filter_absent)
    moreover have "computeUserAttributesUpdate_loop a a (k # ks) h upd
        = computeUserAttributesUpdate_loop a a ks h upd"
      using None by simp
    ultimately show ?thesis using Cons.IH[of h] by (simp only:)
  next
    case (Some v)
    let ?h = "h(a := AList.delete k (h a))"
    have "computeUserAttributesUpdate_loop a a (k # ks) h upd
        = computeUserAttributesUpdate_loop a a ks ?h upd"
      using Some by simp
    also have "\<dots> = (?h(a := filter (\<lambda>p. fst p \<notin> set ks) (?h a)), upd)"
      by (rule Cons.IH)
    also have "?h(a := filter (\<lambda>p. fst p \<notin> set ks) (?h a))
        = h(a := filter (\<lambda>p. fst p \<notin> set (k # ks)) (h a))"
      by (simp only: fun_upd_same fun_upd_upd filter_delete)
    finally show ?thesis .
  qed
qed

text \<open>With two different maps, the loop deletes from \<open>oldMap\<close> the keys it has visited.\<close>

lemma loop_store:
  assumes "oldMap \<noteq> newMap" "set ks \<subseteq> set (keys (h newMap))"
  shows "fst (computeUserAttributesUpdate_loop oldMap newMap ks h upd) =
     h(oldMap := filter (\<lambda>p. fst p \<notin> set ks) (h oldMap))"
  using assms
proof (induction ks arbitrary: h upd)
  case Nil
  then show ?case by simp
next
  case (Cons k ks)
  from Cons.prems obtain v where v: "map_of (h newMap) k = Some v"
    by (cases "map_of (h newMap) k") (auto simp: map_of_None_keys)
  have sub: "set ks \<subseteq> set (keys (h newMap))" using Cons.prems by simp
  show ?case
  proof (cases "map_of (h oldMap) k")
    case None
    then have "k \<notin> set (keys (h oldMap))" by (simp add: map_of_None_keys)
    then have "filter (\<lambda>p. fst p \<notin> set (k # ks)) (h oldMap) = filter (\<lambda>p. fst p \<notin> set ks) (h oldMap)"
      by (rule filter_absent)
    moreover have "computeUserAttributesUpdate_loop oldMap newMap (k # ks) h upd
        = computeUserAttributesUpdate_loop oldMap newMap ks h (AList.update k v upd)"
      using None v by simp
    moreover have "fst (computeUserAttributesUpdate_loop oldMap newMap ks h (AList.update k v upd))
        = h(oldMap := filter (\<lambda>p. fst p \<notin> set ks) (h oldMap))"
      using Cons.prems(1) sub by (rule Cons.IH)
    ultimately show ?thesis by (simp only:)
  next
    case (Some oldV)
    let ?h = "h(oldMap := AList.delete k (h oldMap))"
    let ?u = "if oldV \<noteq> v then AList.update k v upd else upd"
    have sub': "set ks \<subseteq> set (keys (?h newMap))" using sub Cons.prems(1) by simp
    have "computeUserAttributesUpdate_loop oldMap newMap (k # ks) h upd
        = computeUserAttributesUpdate_loop oldMap newMap ks ?h ?u"
      using Some v by simp
    moreover have "fst (computeUserAttributesUpdate_loop oldMap newMap ks ?h ?u)
        = ?h(oldMap := filter (\<lambda>p. fst p \<notin> set ks) (?h oldMap))"
      using Cons.prems(1) sub' by (rule Cons.IH)
    moreover have "?h(oldMap := filter (\<lambda>p. fst p \<notin> set ks) (?h oldMap))
        = h(oldMap := filter (\<lambda>p. fst p \<notin> set (k # ks)) (h oldMap))"
      by (simp only: fun_upd_same fun_upd_upd filter_delete)
    ultimately show ?thesis by (simp only:)
  qed
qed

text \<open>What the loop leaves in \<open>upd\<close>: the new value of each visited key whose value changed.\<close>

lemma loop_upd:
  assumes "oldMap \<noteq> newMap" "distinct ks" "set ks \<subseteq> set (keys (h newMap))"
  shows "map_of (snd (computeUserAttributesUpdate_loop oldMap newMap ks h upd)) x =
     (if x \<in> set ks \<and> map_of (h oldMap) x \<noteq> map_of (h newMap) x
      then map_of (h newMap) x else map_of upd x)"
  using assms
proof (induction ks arbitrary: h upd)
  case Nil
  then show ?case by simp
next
  case (Cons k ks)
  from Cons.prems obtain v where v: "map_of (h newMap) k = Some v"
    by (cases "map_of (h newMap) k") (auto simp: map_of_None_keys)
  have sub: "set ks \<subseteq> set (keys (h newMap))" and dist: "distinct ks" and notin: "k \<notin> set ks"
    using Cons.prems by simp_all
  show ?case
  proof (cases "map_of (h oldMap) k")
    case None
    have "map_of (snd (computeUserAttributesUpdate_loop oldMap newMap ks h (AList.update k v upd))) x =
     (if x \<in> set ks \<and> map_of (h oldMap) x \<noteq> map_of (h newMap) x
      then map_of (h newMap) x else map_of (AList.update k v upd) x)"
      using Cons.prems(1) dist sub by (rule Cons.IH)
    then show ?thesis using None v notin by (auto simp: AList.update_conv')
  next
    case (Some oldV)
    let ?h = "h(oldMap := AList.delete k (h oldMap))"
    let ?u = "if oldV \<noteq> v then AList.update k v upd else upd"
    have sub': "set ks \<subseteq> set (keys (?h newMap))" using sub Cons.prems(1) by simp
    have "map_of (snd (computeUserAttributesUpdate_loop oldMap newMap ks ?h ?u)) x =
     (if x \<in> set ks \<and> map_of (?h oldMap) x \<noteq> map_of (?h newMap) x
      then map_of (?h newMap) x else map_of ?u x)"
      using Cons.prems(1) dist sub' by (rule Cons.IH)
    then show ?thesis using Some v notin Cons.prems(1)
      by (auto simp: AList.update_conv' AList.delete_conv')
  qed
qed

lemma loop_upd_distinct:
  "distinct (keys upd) \<Longrightarrow>
   distinct (keys (snd (computeUserAttributesUpdate_loop oldMap newMap ks h upd)))"
proof (induction ks arbitrary: h upd)
  case Nil
  then show ?case by simp
next
  case (Cons k ks)
  then show ?case
    by (auto simp: keys_def AList.distinct_update split: option.splits)
qed

lemma compute_alias: "computeUserAttributesUpdate h a a = (h(a := []), [], [])"
proof -
  have "filter (\<lambda>p. fst p \<notin> set (keys (h a))) (h a) = []"
    by (auto simp: keys_def filter_empty_conv)
  then show ?thesis
    by (simp add: computeUserAttributesUpdate_def loop_alias keys_def)
qed

lemma compute_separate:
  assumes "oldMap \<noteq> newMap" "distinct (keys (h newMap))"
  shows "\<exists>upd. computeUserAttributesUpdate h oldMap newMap =
           (h(oldMap := filter (\<lambda>p. fst p \<notin> set (keys (h newMap))) (h oldMap)), upd,
            keys (filter (\<lambda>p. fst p \<notin> set (keys (h newMap))) (h oldMap)))
         \<and> distinct (keys upd)
         \<and> (\<forall>x. map_of upd x =
              (if x \<in> set (keys (h newMap)) \<and> map_of (h oldMap) x \<noteq> map_of (h newMap) x
               then map_of (h newMap) x else None))"
proof -
  let ?r = "computeUserAttributesUpdate_loop oldMap newMap (keys (h newMap)) h []"
  have st: "fst ?r = h(oldMap := filter (\<lambda>p. fst p \<notin> set (keys (h newMap))) (h oldMap))"
    using assms(1) by (rule loop_store) simp
  have up: "map_of (snd ?r) x =
              (if x \<in> set (keys (h newMap)) \<and> map_of (h oldMap) x \<noteq> map_of (h newMap) x
               then map_of (h newMap) x else None)" for x
    using loop_upd[of oldMap newMap "keys (h newMap)" h "[]" x] assms by simp
  have di: "distinct (keys (snd ?r))" by (rule loop_upd_distinct) (simp add: keys_def)
  have "computeUserAttributesUpdate h oldMap newMap = (fst ?r, snd ?r, keys (fst ?r oldMap))"
    by (simp add: computeUserAttributesUpdate_def split: prod.splits)
  with st up di show ?thesis by simp
qed

text \<open>
  Claim C1.  For every pair of attribute maps (each with pairwise different keys, as a Go map
  has), \<open>computeUserAttributesUpdate\<close> returns an upsert map equal to
  \<open>{k: desired[k]}\<close> for the keys \<open>k\<close> of \<open>desired\<close> that are not in \<open>previous\<close> or whose value
  differs, and a delete list whose keys are exactly the keys of \<open>previous\<close> that are not in
  \<open>desired\<close>; no key is in both.  \<open>previous\<close> and \<open>desired\<close> are the contents of the two maps
  when the function is called; the statement covers the call with one map for both
  arguments.  The delete list also has no key twice.
\<close>

theorem computeUserAttributesUpdate_sets:
  assumes "distinct (keys (h oldMap))" and "distinct (keys (h newMap))"
  shows "case computeUserAttributesUpdate h oldMap newMap of
           (h', upd, del) \<Rightarrow>
             map_of upd =
               (\<lambda>k. if k \<in> dom (map_of (h newMap)) \<and>
                        (k \<notin> dom (map_of (h oldMap)) \<or> map_of (h oldMap) k \<noteq> map_of (h newMap) k)
                     then map_of (h newMap) k else None)
             \<and> distinct (keys upd)
             \<and> set del = {k \<in> dom (map_of (h oldMap)). k \<notin> dom (map_of (h newMap))}
             \<and> distinct del
             \<and> dom (map_of upd) \<inter> set del = {}"
proof (cases "oldMap = newMap")
  case True
  then show ?thesis by (auto simp: compute_alias keys_def)
next
  case False
  from compute_separate[of oldMap newMap h] False assms(2) obtain upd where
    eq: "computeUserAttributesUpdate h oldMap newMap =
           (h(oldMap := filter (\<lambda>p. fst p \<notin> set (keys (h newMap))) (h oldMap)), upd,
            keys (filter (\<lambda>p. fst p \<notin> set (keys (h newMap))) (h oldMap)))"
    and di: "distinct (keys upd)"
    and up: "\<And>x. map_of upd x =
              (if x \<in> set (keys (h newMap)) \<and> map_of (h oldMap) x \<noteq> map_of (h newMap) x
               then map_of (h newMap) x else None)"
    by blast
  have m: "map_of upd =
               (\<lambda>k. if k \<in> dom (map_of (h newMap)) \<and>
                        (k \<notin> dom (map_of (h oldMap)) \<or> map_of (h oldMap) k \<noteq> map_of (h newMap) k)
                     then map_of (h newMap) k else None)"
    by (rule ext) (auto simp: up dom_keys[symmetric] dom_def)
  have s: "set (keys (filter (\<lambda>p. fst p \<notin> set (keys (h newMap))) (h oldMap)))
            = {k \<in> dom (map_of (h oldMap)). k \<notin> dom (map_of (h newMap))}"
    by (auto simp: dom_keys keys_def)
  have d: "distinct (keys (filter (\<lambda>p. fst p \<notin> set (keys (h newMap))) (h oldMap)))"
    using assms(1) by (simp add: keys_def distinct_map_filter)
  have "dom (map_of upd) \<subseteq> dom (map_of (h newMap))"
    by (auto simp: up dom_def split: if_splits)
  with s have i: "dom (map_of upd) \<inter> set (keys (filter (\<lambda>p. fst p \<notin> set (keys (h newMap))) (h oldMap))) = {}"
    by auto
  show ?thesis unfolding eq using m di s d i by simp
qed

text \<open>
  The example of the specification: previous \<open>{"nickname": "a"}\<close>, desired
  \<open>{"nickname": "b", "locale": "en"}\<close> give the upsert map \<open>{"nickname": "b", "locale": "en"}\<close>
  and the empty delete list.
\<close>

theorem computeUserAttributesUpdate_sets_witness:
  "computeUserAttributesUpdate
      (emptyStore(0 := [(''nickname'', ''a'')], 1 := [(''nickname'', ''b''), (''locale'', ''en'')])) 0 1
     = (emptyStore(0 := [], 1 := [(''nickname'', ''b''), (''locale'', ''en'')]),
        [(''nickname'', ''b''), (''locale'', ''en'')], [])
   \<and> (case computeUserAttributesUpdate
      (emptyStore(0 := [(''nickname'', ''a'')], 1 := [(''nickname'', ''b''), (''locale'', ''en'')])) 0 1 of
       (h', upd, del) \<Rightarrow>
         map_of upd = (\<lambda>k. if k \<in> dom (map_of [(''nickname'', ''b''), (''locale'', ''en'')]) \<and>
                        (k \<notin> dom (map_of [(''nickname'', ''a'')]) \<or>
                         map_of [(''nickname'', ''a'')] k \<noteq> map_of [(''nickname'', ''b''), (''locale'', ''en'')] k)
                     then map_of [(''nickname'', ''b''), (''locale'', ''en'')] k else None)
         \<and> set del = {k \<in> dom (map_of [(''nickname'', ''a'')]).
                          k \<notin> dom (map_of [(''nickname'', ''b''), (''locale'', ''en'')])})"
proof -
  let ?h = "emptyStore(0 := [(''nickname'', ''a'')], 1 := [(''nickname'', ''b''), (''locale'', ''en'')])"
  have d0: "distinct (keys (?h 0))" and d1: "distinct (keys (?h 1))"
    by (simp_all add: keys_def)
  have e: "computeUserAttributesUpdate ?h 0 1
     = (emptyStore(0 := [], 1 := [(''nickname'', ''b''), (''locale'', ''en'')]),
        [(''nickname'', ''b''), (''locale'', ''en'')], [])"
    by (simp add: computeUserAttributesUpdate_def keys_def fun_upd_twist)
  from computeUserAttributesUpdate_sets[of ?h 0 1] d0 d1 e show ?thesis
    by (simp only: prod.case fun_upd_same fun_upd_other)
qed

text \<open>
  Claim C3 (amended).  The function builds \<open>upd\<close> and \<open>del\<close> and changes one thing beside them:
  it deletes from the map passed as \<open>old\<close> every key that \<open>new\<close> has, so that \<open>old\<close> is left
  with the entries named in the delete list.  No other map of the store changes; the map
  passed as \<open>new\<close> is unmodified when it is another map than \<open>old\<close>.
\<close>

theorem computeUserAttributesUpdate_store:
  "fst (computeUserAttributesUpdate h oldMap newMap) =
     h(oldMap := filter (\<lambda>p. fst p \<notin> set (keys (h newMap))) (h oldMap))"
proof (cases "oldMap = newMap")
  case True
  have "filter (\<lambda>p. fst p \<notin> set (keys (h newMap))) (h newMap) = []"
    by (auto simp: keys_def filter_empty_conv)
  with True show ?thesis by (simp add: compute_alias)
next
  case False
  have "fst (computeUserAttributesUpdate_loop oldMap newMap (keys (h newMap)) h []) =
     h(oldMap := filter (\<lambda>p. fst p \<notin> set (keys (h newMap))) (h oldMap))"
    using False by (rule loop_store) simp
  then show ?thesis
    by (simp add: computeUserAttributesUpdate_def case_prod_beta)
qed

theorem computeUserAttributesUpdate_store_witness:
  "fst (computeUserAttributesUpdate
      (emptyStore(0 := [(''custom_field'', ''x''), (''nickname'', ''a'')], 1 := [(''nickname'', ''b'')])) 0 1)
   = emptyStore(0 := [(''custom_field'', ''x'')], 1 := [(''nickname'', ''b'')])"
  using computeUserAttributesUpdate_store
    [of "emptyStore(0 := [(''custom_field'', ''x''), (''nickname'', ''a'')], 1 := [(''nickname'', ''b'')])" 0 1]
  by (simp add: keys_def fun_upd_twist)

text \<open>
  The claim as stated fails on the specification's own example: after the call the map
  passed as \<open>old\<close> no longer holds \<open>nickname\<close>.
\<close>

theorem computeUserAttributesUpdate_mutates_previous:
  "fst (computeUserAttributesUpdate
      (emptyStore(0 := [(''nickname'', ''a'')], 1 := [(''nickname'', ''b''), (''locale'', ''en'')])) 0 1) 0
   \<noteq> (emptyStore(0 := [(''nickname'', ''a'')], 1 := [(''nickname'', ''b''), (''locale'', ''en'')])) 0"
  by (simp add: computeUserAttributesUpdate_def keys_def)

section \<open>Properties of the attribute names\<close>

lemma not_standard_custom: "\<not> UserAttributeKeyMatchesStandardAttribute (''custom:'' @ k)"
  by (simp add: UserAttributeKeyMatchesStandardAttribute_def standardAttributeKeys_def)

lemma trim_custom: "TrimPrefix (TrimPrefix (''custom:'' @ k) ''dev:'') ''custom:'' = k"
  by (simp add: TrimPrefix_def HasPrefix_def)

lemma has_custom_prefix: "HasPrefix k ''custom:'' \<Longrightarrow> k = ''custom:'' @ drop (length ''custom:'') k"
proof -
  assume "HasPrefix k ''custom:''"
  then have "take (length ''custom:'') k = ''custom:''" by (simp add: HasPrefix_def)
  then show ?thesis using append_take_drop_id[of "length ''custom:''" k] by simp
qed

text \<open>
  Claim C2 (amended).  For every key \<open>k\<close> that is not a standard attribute and does not already
  start with \<open>custom:\<close>, and every value, writing the attribute through \<open>expandAttribute\<close> and
  reading the result back through \<open>flattenUserAttributes\<close> gives the attribute again (the empty
  key is covered as well).  Every key that already starts with \<open>custom:\<close> is not a standard
  attribute, is written unchanged and is read back without the prefix.
\<close>

theorem flatten_expand_roundtrip:
  "(\<not> UserAttributeKeyMatchesStandardAttribute k \<and> \<not> HasPrefix k ''custom:'' \<longrightarrow>
      flattenUserAttributes (expandAttribute [(k, v)]) = [(k, v)])
   \<and> (HasPrefix k ''custom:'' \<longrightarrow>
        \<not> UserAttributeKeyMatchesStandardAttribute k
        \<and> expandAttribute [(k, v)] = [AttributeType (Some k) (Some v)]
        \<and> flattenUserAttributes (expandAttribute [(k, v)]) = [(drop (length ''custom:'') k, v)])"
proof (intro conjI impI)
  assume a: "\<not> UserAttributeKeyMatchesStandardAttribute k \<and> \<not> HasPrefix k ''custom:''"
  then have "expandAttribute [(k, v)] = [AttributeType (Some (''custom:'' @ k)) (Some v)]"
    by (simp add: expandAttribute_def expandName_def)
  then show "flattenUserAttributes (expandAttribute [(k, v)]) = [(k, v)]"
    using not_standard_custom[of k] trim_custom[of k]
    by (simp add: flattenUserAttributes_def StringValue_def del: append.simps)
next
  assume p: "HasPrefix k ''custom:''"
  let ?r = "drop (length ''custom:'') k"
  have k: "k = ''custom:'' @ ?r" using p by (rule has_custom_prefix)
  show n: "\<not> UserAttributeKeyMatchesStandardAttribute k"
    using not_standard_custom[of ?r] k by simp
  show e: "expandAttribute [(k, v)] = [AttributeType (Some k) (Some v)]"
    using p by (simp add: expandAttribute_def expandName_def)
  have "TrimPrefix (TrimPrefix k ''dev:'') ''custom:'' = ?r"
    using trim_custom[of ?r] k by simp
  then show "flattenUserAttributes (expandAttribute [(k, v)]) = [(?r, v)]"
    using n by (simp add: e flattenUserAttributes_def StringValue_def)
qed

text \<open>
  The key \<open>custom_field\<close> of the specification's example comes back as it is; the key
  \<open>custom:team\<close> is written as \<open>custom:team\<close> and comes back as \<open>team\<close>.
\<close>

theorem flatten_expand_roundtrip_witness:
  "\<not> UserAttributeKeyMatchesStandardAttribute ''custom_field'' \<and> \<not> HasPrefix ''custom_field'' ''custom:''
   \<and> flattenUserAttributes (expandAttribute [(''custom_field'', ''x'')]) = [(''custom_field'', ''x'')]
   \<and> HasPrefix ''custom:team'' ''custom:''
   \<and> expandAttribute [(''custom:team'', ''blue'')] = [AttributeType (Some ''custom:team'') (Some ''blue'')]
   \<and> flattenUserAttributes (expandAttribute [(''custom:team'', ''blue'')]) = [(''team'', ''blue'')]"
proof -
  have a: "\<not> UserAttributeKeyMatchesStandardAttribute ''custom_field''"
    by (simp add: UserAttributeKeyMatchesStandardAttribute_def standardAttributeKeys_def)
  have b: "\<not> HasPrefix ''custom_field'' ''custom:''"
    by (simp add: HasPrefix_def)
  have c: "HasPrefix ''custom:team'' ''custom:''"
    by (simp add: HasPrefix_def)
  have t1: "flattenUserAttributes (expandAttribute [(''custom_field'', ''x'')]) = [(''custom_field'', ''x'')]"
    using flatten_expand_roundtrip[of "''custom_field''" "''x''"] a b by blast
  have t2: "expandAttribute [(''custom:team'', ''blue'')] = [AttributeType (Some ''custom:team'') (Some ''blue'')]"
    using flatten_expand_roundtrip[of "''custom:team''" "''blue''"] c by blast
  have "flattenUserAttributes (expandAttribute [(''custom:team'', ''blue'')])
          = [(drop (length ''custom:'') ''custom:team'', ''blue'')]"
    using flatten_expand_roundtrip[of "''custom:team''" "''blue''"] c by blast
  then have t3: "flattenUserAttributes (expandAttribute [(''custom:team'', ''blue'')]) = [(''team'', ''blue'')]"
    by simp
  show ?thesis using a b c t1 t2 t3 by blast
qed

text \<open>
  The claim as stated fails for a key that already carries the prefix: \<open>custom:foo\<close> is not
  empty and not a standard attribute, it is written unchanged and read back as \<open>foo\<close>.
\<close>

theorem flatten_expand_custom_prefixed:
  "''custom:foo'' \<noteq> [] \<and> \<not> UserAttributeKeyMatchesStandardAttribute ''custom:foo''
   \<and> flattenUserAttributes (expandAttribute [(''custom:foo'', ''x'')]) = [(''foo'', ''x'')]
   \<and> flattenUserAttributes (expandAttribute [(''custom:foo'', ''x'')]) \<noteq> [(''custom:foo'', ''x'')]"
  by (simp add: flattenUserAttributes_def expandAttribute_def expandName_def StringValue_def
      UserAttributeKeyMatchesStandardAttribute_def standardAttributeKeys_def TrimPrefix_def HasPrefix_def)

text \<open>
  The same for a whole map: when no key starts with \<open>custom:\<close>, what is read back is the map
  that was written, standard attributes included.
\<close>

lemma expandAttribute_loop_map:
  "expandAttribute_loop m acc = acc @ map (\<lambda>(k, v). AttributeType (Some (expandName k)) (Some v)) m"
  by (induction m arbitrary: acc) auto

lemma flatten_expandName:
  assumes "\<not> HasPrefix k ''custom:''"
  shows "flattenUserAttributes_loop (AttributeType (Some (expandName k)) (Some v) # rest) tfMap =
         flattenUserAttributes_loop rest (AList.update k v tfMap)"
proof (cases "UserAttributeKeyMatchesStandardAttribute k")
  case True
  then show ?thesis by (simp add: expandName_def StringValue_def)
next
  case False
  then show ?thesis
    using assms not_standard_custom[of k] trim_custom[of k]
    by (simp add: expandName_def StringValue_def del: append.simps)
qed

lemma flatten_loop_expanded:
  assumes "distinct (keys m)" and "\<forall>k \<in> set (keys m). \<not> HasPrefix k ''custom:''"
  shows "map_of (flattenUserAttributes_loop
                   (map (\<lambda>(k, v). AttributeType (Some (expandName k)) (Some v)) m) tfMap) x =
         (case map_of m x of Some v \<Rightarrow> Some v | None \<Rightarrow> map_of tfMap x)"
  using assms
proof (induction m arbitrary: tfMap)
  case Nil
  then show ?case by simp
next
  case (Cons p m)
  obtain k v where p: "p = (k, v)" by (cases p)
  from Cons.prems p have k: "\<not> HasPrefix k ''custom:''" and d: "distinct (keys m)"
    and r: "\<forall>k \<in> set (keys m). \<not> HasPrefix k ''custom:''" and n: "map_of m k = None"
    by (auto simp: keys_def map_of_eq_None_iff)
  have step: "flattenUserAttributes_loop
                (map (\<lambda>(k, v). AttributeType (Some (expandName k)) (Some v)) (p # m)) tfMap
      = flattenUserAttributes_loop
                (map (\<lambda>(k, v). AttributeType (Some (expandName k)) (Some v)) m) (AList.update k v tfMap)"
    by (simp only: p list.map prod.case flatten_expandName[OF k])
  show ?case
    unfolding step
    using Cons.IH[OF d r, of "AList.update k v tfMap"] n
    by (auto simp: p AList.update_conv' split: option.splits)
qed

lemma flatten_expand_map:
  assumes "distinct (keys m)" and "\<forall>k \<in> set (keys m). \<not> HasPrefix k ''custom:''"
  shows "map_of (flattenUserAttributes (expandAttribute m)) = map_of m"
proof (rule ext)
  fix x
  show "map_of (flattenUserAttributes (expandAttribute m)) x = map_of m x"
  proof (cases m)
    case Nil
    then show ?thesis by (simp add: flattenUserAttributes_def expandAttribute_def)
  next
    case (Cons p ps)
    then have "expandAttribute m = map (\<lambda>(k, v). AttributeType (Some (expandName k)) (Some v)) m"
      by (simp add: expandAttribute_def expandAttribute_loop_map)
    then show ?thesis
      using flatten_loop_expanded[OF assms, of "[]" x]
      by (simp add: flattenUserAttributes_def split: option.splits)
  qed
qed

section \<open>Properties of the import\<close>

lemma Split_loop_length: "length (Split_loop s sep cur) = count_list s sep + 1"
  by (induction s arbitrary: cur) auto

lemma Split_loop_none: "sep \<notin> set s \<Longrightarrow> Split_loop s sep cur = [cur @ s]"
  by (induction s arbitrary: cur) auto

lemma Split_loop_first:
  "sep \<notin> set a \<Longrightarrow> Split_loop (a @ sep # b) sep cur = (cur @ a) # Split_loop b sep []"
  by (induction a arbitrary: cur) auto

lemma Split_parts:
  "sep \<notin> set a \<Longrightarrow> sep \<notin> set b \<Longrightarrow> Split (a @ sep # b) sep = [a, b]"
  by (simp add: Split_def Split_loop_first Split_loop_none)

text \<open>Two parts are the text before the only separator and the text after it.\<close>

lemma Split_loop_two:
  "Split_loop s sep cur = [a, b] \<Longrightarrow> cur @ s = a @ sep # b \<and> sep \<notin> set b"
proof (induction s arbitrary: cur)
  case Nil
  then show ?case by simp
next
  case (Cons c s)
  show ?case
  proof (cases "c = sep")
    case True
    with Cons.prems have a: "a = cur" and b: "Split_loop s sep [] = [b]" by simp_all
    from b have "count_list s sep = 0" using Split_loop_length[of s sep "[]"] by simp
    then have n: "sep \<notin> set s" by (simp add: count_list_0_iff)
    then have "Split_loop s sep [] = [s]" using Split_loop_none[of sep s "[]"] by simp
    with b have "b = s" by simp
    with a True n show ?thesis by simp
  next
    case False
    with Cons.prems have "Split_loop s sep (cur @ [c]) = [a, b]" by simp
    from Cons.IH[OF this] show ?thesis by simp
  qed
qed

lemma Split_two:
  assumes "length (Split s sep) = 2"
  shows "s = Split s sep ! 0 @ sep # Split s sep ! 1"
proof -
  from assms obtain a b where ab: "Split s sep = [a, b]"
    by (cases "Split s sep") (auto simp: length_Suc_conv)
  then have "Split_loop s sep [] = [a, b]" by (simp add: Split_def)
  from Split_loop_two[OF this] ab show ?thesis by simp
qed

text \<open>
  Claim C6.  For every import ID, \<open>resourceUserImport\<close> returns an error if and only if
  splitting the ID on \<open>/\<close> does not yield exactly two parts (that is, the ID does not hold
  exactly one \<open>/\<close>), and then it has set nothing: the resource data are as before.  Otherwise
  it returns the resource data with \<open>user_pool_id\<close> set to the first part and \<open>username\<close> to the
  second, which together with the \<open>/\<close> between them are the ID.
\<close>

theorem resourceUserImport_two_parts:
  "case resourceUserImport d of
     (Inl err, d') \<Rightarrow>
        length (Split (ID d) CHR ''/'') \<noteq> 2 \<and> count_list (ID d) CHR ''/'' \<noteq> 1 \<and> d' = d
   | (Inr ds, d') \<Rightarrow>
        length (Split (ID d) CHR ''/'') = 2 \<and> count_list (ID d) CHR ''/'' = 1 \<and> ds = [d'] \<and>
        d' = d\<lparr>Values := (Values d)\<lparr>user_pool_id := Split (ID d) CHR ''/'' ! 0,
                                      username := Split (ID d) CHR ''/'' ! 1\<rparr>\<rparr> \<and>
        ID d = user_pool_id (Values d') @ ''/'' @ username (Values d')"
proof (cases "length (Split (ID d) CHR ''/'') = 2")
  case True
  from Split_two[OF True] have "ID d = Split (ID d) CHR ''/'' ! 0 @ ''/'' @ Split (ID d) CHR ''/'' ! 1"
    by simp
  moreover from True have "count_list (ID d) CHR ''/'' = 1"
    by (simp add: Split_def Split_loop_length)
  ultimately show ?thesis using True
    by (simp add: resourceUserImport_def SetValue_def Let_def)
next
  case False
  moreover from False have "count_list (ID d) CHR ''/'' \<noteq> 1"
    by (simp add: Split_def Split_loop_length)
  ultimately show ?thesis
    by (simp add: resourceUserImport_def Let_def)
qed

text \<open>
  The ID \<open>pool-1/alice\<close> is imported; \<open>pool-1/alice/x\<close>, with three parts, and \<open>alice\<close>, with
  one, are refused.
\<close>

theorem resourceUserImport_two_parts_witness:
  "resourceUserImport (resourceData ''pool-1/alice'' False emptyUserAttrs emptyUserAttrs)
     = (Inr [(resourceData ''pool-1/alice'' False emptyUserAttrs emptyUserAttrs)\<lparr>Values := aliceAttrs\<rparr>],
        (resourceData ''pool-1/alice'' False emptyUserAttrs emptyUserAttrs)\<lparr>Values := aliceAttrs\<rparr>)
   \<and> Split ''pool-1/alice'' CHR ''/'' = [''pool-1'', ''alice'']
   \<and> resourceUserImport (resourceData ''pool-1/alice/x'' False emptyUserAttrs emptyUserAttrs)
     = (Inl (ErrorString ''error importing Cognito User. Must specify user_pool_id/username''),
        resourceData ''pool-1/alice/x'' False emptyUserAttrs emptyUserAttrs)
   \<and> resourceUserImport (resourceData ''alice'' False emptyUserAttrs emptyUserAttrs)
     = (Inl (ErrorString ''error importing Cognito User. Must specify user_pool_id/username''),
        resourceData ''alice'' False emptyUserAttrs emptyUserAttrs)"
  using resourceUserImport_two_parts[of "resourceData ''pool-1/alice'' False emptyUserAttrs emptyUserAttrs"]
  by (simp add: resourceUserImport_def Split_def SetValue_def Let_def example_defs)

text \<open>
  Claim C10.  \<open>resourceUserImport\<close> accepts every ID with exactly one \<open>/\<close>, whatever stands
  before and after it: for every \<open>a\<close> and \<open>b\<close> without a \<open>/\<close>, the empty string included, the ID
  \<open>a/b\<close> is imported with \<open>user_pool_id = a\<close> and \<open>username = b\<close>.
\<close>

theorem resourceUserImport_empty_parts:
  assumes "CHR ''/'' \<notin> set a" and "CHR ''/'' \<notin> set b" and "ID d = a @ ''/'' @ b"
  shows "resourceUserImport d =
     (Inr [d\<lparr>Values := (Values d)\<lparr>user_pool_id := a, username := b\<rparr>\<rparr>],
      d\<lparr>Values := (Values d)\<lparr>user_pool_id := a, username := b\<rparr>\<rparr>)"
proof -
  have "Split (ID d) CHR ''/'' = [a, b]"
    using Split_parts[OF assms(1) assms(2)] assms(3) by simp
  then show ?thesis
    by (simp add: resourceUserImport_def SetValue_def Let_def)
qed

text \<open>The ID \<open>pool/\<close> is imported with the user pool \<open>pool\<close> and the empty username.\<close>

theorem resourceUserImport_empty_parts_witness:
  "resourceUserImport (resourceData ''pool/'' False emptyUserAttrs emptyUserAttrs)
     = (Inr [(resourceData ''pool/'' False emptyUserAttrs emptyUserAttrs)
               \<lparr>Values := emptyUserAttrs\<lparr>user_pool_id := ''pool'', username := []\<rparr>\<rparr>],
        (resourceData ''pool/'' False emptyUserAttrs emptyUserAttrs)
               \<lparr>Values := emptyUserAttrs\<lparr>user_pool_id := ''pool'', username := []\<rparr>\<rparr>)"
proof -
  have a: "CHR ''/'' \<notin> set ''pool''" and b: "CHR ''/'' \<notin> set []" by simp_all
  have c: "ID (resourceData ''pool/'' False emptyUserAttrs emptyUserAttrs) = ''pool'' @ ''/'' @ []"
    by (simp add: resourceData_def)
  from resourceUserImport_empty_parts[OF a b c] show ?thesis
    by (simp add: resourceData_def)
qed

section \<open>Properties of the read and delete handlers\<close>

lemma returnsError_simps [simp]:
  "returnsError (Return (DiagError s a r i e))" "returnsError (Return (Errorf m e))"
  "returnsError (Return (FromErr e))" "returnsError (Return (AppendErrorf [] m e))"
  "\<not> returnsError (Return [])" "\<not> returnsError Panic"
  by (simp_all add: returnsError_def HasError_def DiagError_def Errorf_def FromErr_def AppendErrorf_def)

text \<open>
  Claim C5 (amended).  The lookup of the resource itself is \<open>FindUserByTwoPartKey\<close> for the
  user and \<open>FindCoreNetworkByID\<close> for the policy attachment.  In both handlers, when this lookup
  reports an error that is a not-found error and the resource is not newly created, the read
  clears the ID, changes nothing else and returns no diagnostic; for every other error of
  this lookup it returns an error diagnostic and leaves the resource data as they are.

  The read of the policy attachment makes a second lookup, of the policy document, after it
  has stored \<open>core_network_id\<close> and \<open>state\<close>.  A not-found error of that lookup is handled in
  another way, whether the resource is new or not: the read empties \<open>policy_document\<close>, keeps
  the ID and returns no diagnostic.  Every other error of that lookup gives an error
  diagnostic.
\<close>

theorem read_not_found:
  "(\<forall>err. fst (FindUserByTwoPartKey conn (user_pool_id (Values d)) (username (Values d))) = Inl err \<longrightarrow>
      (case resourceUserRead notFound conn d of
         (out, d', tr) \<Rightarrow>
           if \<not> IsNewResource d \<and> notFound err
           then out = Return [] \<and> d' = d\<lparr>ID := []\<rparr>
           else returnsError out \<and> d' = d))
   \<and> (\<forall>err. FindCoreNetworkByID nm (ID e) = Inl err \<longrightarrow>
      (case resourceCoreNetworkPolicyAttachmentRead notFound nm e of
         (out, e', tr) \<Rightarrow>
           if \<not> IsNewResource e \<and> notFound err
           then out = Return [] \<and> e' = e\<lparr>ID := []\<rparr>
           else returnsError out \<and> e' = e))
   \<and> (\<forall>coreNetwork err. FindCoreNetworkByID nm (ID e) = Inr coreNetwork \<longrightarrow>
        FindCoreNetworkPolicyByID nm (ID e) = Inl err \<longrightarrow>
      (case resourceCoreNetworkPolicyAttachmentRead notFound nm e of
         (out, e', tr) \<Rightarrow>
           if notFound err
           then out = Return [] \<and> ID e' = ID e \<and>
                e' = e\<lparr>Values := (Values e)\<lparr>core_network_id := StringValue (CoreNetworkId coreNetwork),
                                              state := StringValue (State coreNetwork),
                                              policy_document := []\<rparr>\<rparr>
           else returnsError out \<and>
                e' = e\<lparr>Values := (Values e)\<lparr>core_network_id := StringValue (CoreNetworkId coreNetwork),
                                              state := StringValue (State coreNetwork)\<rparr>\<rparr>))"
proof (intro conjI allI impI)
  fix err
  assume "fst (FindUserByTwoPartKey conn (user_pool_id (Values d)) (username (Values d))) = Inl err"
  then show "case resourceUserRead notFound conn d of
         (out, d', tr) \<Rightarrow>
           if \<not> IsNewResource d \<and> notFound err
           then out = Return [] \<and> d' = d\<lparr>ID := []\<rparr>
           else returnsError out \<and> d' = d"
    by (auto simp: resourceUserRead_def SetId_def split: prod.splits sum.splits)
next
  fix err
  assume "FindCoreNetworkByID nm (ID e) = Inl err"
  then show "case resourceCoreNetworkPolicyAttachmentRead notFound nm e of
         (out, e', tr) \<Rightarrow>
           if \<not> IsNewResource e \<and> notFound err
           then out = Return [] \<and> e' = e\<lparr>ID := []\<rparr>
           else returnsError out \<and> e' = e"
    by (simp add: resourceCoreNetworkPolicyAttachmentRead_def SetId_def Let_def)
next
  fix coreNetwork err
  assume "FindCoreNetworkByID nm (ID e) = Inr coreNetwork"
    and "FindCoreNetworkPolicyByID nm (ID e) = Inl err"
  then show "case resourceCoreNetworkPolicyAttachmentRead notFound nm e of
         (out, e', tr) \<Rightarrow>
           if notFound err
           then out = Return [] \<and> ID e' = ID e \<and>
                e' = e\<lparr>Values := (Values e)\<lparr>core_network_id := StringValue (CoreNetworkId coreNetwork),
                                              state := StringValue (State coreNetwork),
                                              policy_document := []\<rparr>\<rparr>
           else returnsError out \<and>
                e' = e\<lparr>Values := (Values e)\<lparr>core_network_id := StringValue (CoreNetworkId coreNetwork),
                                              state := StringValue (State coreNetwork)\<rparr>\<rparr>"
    by (simp add: resourceCoreNetworkPolicyAttachmentRead_def
        resourceCoreNetworkPolicyAttachmentRead_policy_def SetValue_def Let_def)
qed

text \<open>
  A user that no longer exists: the read of a resource that is not new clears the ID and
  returns no diagnostic, the read of a new resource returns an error diagnostic.  A core
  network that no longer exists: the ID is cleared.  A core network without a policy: the
  ID stays and \<open>policy_document\<close> is empty.
\<close>

theorem read_not_found_witness:
  "fst (FindUserByTwoPartKey goneConn ''pool-1'' ''alice'') = Inl (NotFoundError userNotFound)
   \<and> NotFound (NotFoundError userNotFound)
   \<and> resourceUserRead NotFound goneConn (resourceData ''pool-1/alice'' False aliceAttrs aliceAttrs)
       = (Return [], resourceData [] False aliceAttrs aliceAttrs,
          [(AdminGetUser ''alice'' ''pool-1'', Some userNotFound)])
   \<and> returnsError (fst (resourceUserRead NotFound goneConn
        (resourceData ''pool-1/alice'' True aliceAttrs aliceAttrs)))
   \<and> fst (resourceCoreNetworkPolicyAttachmentRead NotFound goneNetwork
        (resourceData ''core-network-0123456789abcdef0'' False emptyPolicyAttrs emptyPolicyAttrs)) = Return []
   \<and> ID (fst (snd (resourceCoreNetworkPolicyAttachmentRead NotFound goneNetwork
        (resourceData ''core-network-0123456789abcdef0'' False emptyPolicyAttrs emptyPolicyAttrs)))) = []
   \<and> fst (resourceCoreNetworkPolicyAttachmentRead NotFound noPolicyNetwork
        (resourceData ''core-network-0123456789abcdef0'' False emptyPolicyAttrs emptyPolicyAttrs)) = Return []
   \<and> ID (fst (snd (resourceCoreNetworkPolicyAttachmentRead NotFound noPolicyNetwork
        (resourceData ''core-network-0123456789abcdef0'' False emptyPolicyAttrs emptyPolicyAttrs))))
       = ''core-network-0123456789abcdef0''"
  using read_not_found[where conn = goneConn and notFound = NotFound and nm = goneNetwork
      and d = "resourceData ''pool-1/alice'' False aliceAttrs aliceAttrs"
      and e = "resourceData ''core-network-0123456789abcdef0'' False emptyPolicyAttrs emptyPolicyAttrs"]
    read_not_found[where conn = goneConn and notFound = NotFound and nm = noPolicyNetwork
      and d = "resourceData ''pool-1/alice'' False aliceAttrs aliceAttrs"
      and e = "resourceData ''core-network-0123456789abcdef0'' False emptyPolicyAttrs emptyPolicyAttrs"]
  by (simp add: resourceUserRead_def FindUserByTwoPartKey_def goneConn_def okConn_def userNotFound_def
      resourceData_def aliceAttrs_def emptyUserAttrs_def SetId_def goneNetwork_def noPolicyNetwork_def
      resourceCoreNetworkPolicyAttachmentRead_def resourceCoreNetworkPolicyAttachmentRead_policy_def
      SetValue_def Let_def errorOf_def)

text \<open>
  The claim as stated fails in the read of the policy attachment when the core network is
  found and the lookup of its policy document reports a not-found error.  For a resource
  that is not new the read returns no diagnostic and does not clear the ID; for a new
  resource it returns no error diagnostic either.
\<close>

theorem read_policy_lookup_keeps_id:
  "FindCoreNetworkPolicyByID noPolicyNetwork ''core-network-0123456789abcdef0''
     = Inl (NotFoundError (AWSError ''ResourceNotFoundException'' []))
   \<and> NotFound (NotFoundError (AWSError ''ResourceNotFoundException'' []))
   \<and> \<not> IsNewResource (resourceData ''core-network-0123456789abcdef0'' False emptyPolicyAttrs emptyPolicyAttrs)
   \<and> resourceCoreNetworkPolicyAttachmentRead NotFound noPolicyNetwork
       (resourceData ''core-network-0123456789abcdef0'' False emptyPolicyAttrs emptyPolicyAttrs)
     = (Return [],
        (resourceData ''core-network-0123456789abcdef0'' False emptyPolicyAttrs emptyPolicyAttrs)
          \<lparr>Values := emptyPolicyAttrs\<lparr>core_network_id := ''core-network-0123456789abcdef0'',
                                        state := ''AVAILABLE''\<rparr>\<rparr>,
        [(CallFindCoreNetworkByID ''core-network-0123456789abcdef0'', None),
         (CallFindCoreNetworkPolicyByID ''core-network-0123456789abcdef0'',
          Some (NotFoundError (AWSError ''ResourceNotFoundException'' [])))])
   \<and> ID (fst (snd (resourceCoreNetworkPolicyAttachmentRead NotFound noPolicyNetwork
        (resourceData ''core-network-0123456789abcdef0'' False emptyPolicyAttrs emptyPolicyAttrs)))) \<noteq> []
   \<and> \<not> returnsError (fst (resourceCoreNetworkPolicyAttachmentRead NotFound noPolicyNetwork
        (resourceData ''core-network-0123456789abcdef0'' True emptyPolicyAttrs emptyPolicyAttrs)))"
  by (simp add: resourceCoreNetworkPolicyAttachmentRead_def
      resourceCoreNetworkPolicyAttachmentRead_policy_def SetValue_def Let_def errorOf_def
      StringValue_def example_defs)

text \<open>
  Claim C9.  The delete handler of the policy attachment resource is \<open>schema.NoopContext\<close>: for
  every resource data and every service, deleting returns no diagnostic, makes no remote
  call (so the remote resource stays as it is) and leaves the resource data unchanged.
\<close>

theorem delete_is_noop:
  "DeleteWithoutTimeout (ResourceCoreNetworkPolicyAttachment notFound) conn d = (Return [], d, [])"
  unfolding ResourceCoreNetworkPolicyAttachment_def
  by (simp add: NoopContext_def)

theorem delete_is_noop_witness:
  "DeleteWithoutTimeout (ResourceCoreNetworkPolicyAttachment NotFound) goneNetwork
     (resourceData ''core-network-0123456789abcdef0'' False emptyPolicyAttrs emptyPolicyAttrs)
   = (Return [], resourceData ''core-network-0123456789abcdef0'' False emptyPolicyAttrs emptyPolicyAttrs, [])"
  using delete_is_noop[where notFound = NotFound and conn = goneNetwork
      and d = "resourceData ''core-network-0123456789abcdef0'' False emptyPolicyAttrs emptyPolicyAttrs"]
  by simp

section \<open>The remote calls of an update\<close>

lemma callsOf_append [simp]: "callsOf kind (tr1 @ tr2) = callsOf kind tr1 @ callsOf kind tr2"
  by (simp add: callsOf_def)

lemma callsOf_Nil [simp]: "callsOf kind [] = []"
  by (simp add: callsOf_def)

lemma calls_upsert:
  "callsOf kind (snd (resourceUserUpdate_upsert conn d upd)) =
     (if upd \<noteq> [] then filter kind [AdminUpdateUserAttributes (username (Values d)) (user_pool_id (Values d))
        (expandAttribute upd)
        (if client_metadata (Values d) \<noteq> []
         then Some (expandUserClientMetadata (client_metadata (Values d))) else None)] else [])"
  by (simp add: resourceUserUpdate_upsert_def callsOf_def Let_def split: option.splits)

lemma calls_delete:
  "callsOf kind (snd (resourceUserUpdate_delete conn d del)) =
     (if del \<noteq> [] then filter kind [AdminDeleteUserAttributes (username (Values d)) (user_pool_id (Values d))
        (expandUserAttributesDelete del)] else [])"
  by (simp add: resourceUserUpdate_delete_def callsOf_def Let_def split: option.splits)

lemma calls_attributes:
  "callsOf kind (snd (resourceUserUpdate_attributes conn d)) =
     (if HasChangeMap attributes d
      then callsOf kind (snd (resourceUserUpdate_upsert conn d (fst (attributesChange d)))) @
           (if fst (resourceUserUpdate_upsert conn d (fst (attributesChange d))) = None
            then callsOf kind (snd (resourceUserUpdate_delete conn d (snd (attributesChange d))))
            else [])
      else [])"
  by (auto simp: resourceUserUpdate_attributes_def split: prod.splits option.splits)

lemma calls_enabled:
  "callsOf kind (snd (resourceUserUpdate_enabled conn d)) =
     (if HasChange enabled d
      then filter kind [if enabled (Values d)
                        then AdminEnableUser (username (Values d)) (user_pool_id (Values d))
                        else AdminDisableUser (username (Values d)) (user_pool_id (Values d))]
      else [])"
  by (simp add: resourceUserUpdate_enabled_def callsOf_def Let_def split: option.splits)

lemma calls_temporary_password:
  "callsOf kind (snd (snd (resourceUserUpdate_temporary_password conn d))) =
     (if HasChange temporary_password d \<and> temporary_password (Values d) \<noteq> []
      then filter kind [AdminSetUserPassword (username (Values d)) (user_pool_id (Values d))
                          (temporary_password (Values d)) False]
      else [])"
  by (simp add: resourceUserUpdate_temporary_password_def callsOf_def Let_def split: option.splits)

lemma calls_password:
  "callsOf kind (snd (snd (resourceUserUpdate_password conn d))) =
     (if HasChange password d \<and> password (Values d) \<noteq> []
      then filter kind [AdminSetUserPassword (username (Values d)) (user_pool_id (Values d))
                          (password (Values d)) True]
      else [])"
  by (simp add: resourceUserUpdate_password_def callsOf_def Let_def split: option.splits)

lemma calls_read:
  "callsOf kind (snd (snd (resourceUserRead notFound conn d))) =
     filter kind [AdminGetUser (username (Values d)) (user_pool_id (Values d))]"
  by (simp add: resourceUserRead_def FindUserByTwoPartKey_def callsOf_def
      split: prod.splits sum.splits option.splits)

lemma update_calls:
  assumes "kind = isAdminUpdateUserAttributes \<or> kind = isAdminDeleteUserAttributes \<or> kind = isEnableOrDisable"
  shows "callsOf kind (snd (snd (resourceUserUpdate notFound conn d))) =
     callsOf kind (snd (resourceUserUpdate_attributes conn d)) @
     (if fst (resourceUserUpdate_attributes conn d) = None
      then callsOf kind (snd (resourceUserUpdate_enabled conn d)) else [])"
proof -
  obtain r1 tr1 where b1: "resourceUserUpdate_attributes conn d = (r1, tr1)" by fastforce
  obtain r2 tr2 where b2: "resourceUserUpdate_enabled conn d = (r2, tr2)" by fastforce
  obtain r3 d3 tr3 where b3: "resourceUserUpdate_temporary_password conn d = (r3, d3, tr3)"
    by (metis prod_cases3)
  obtain r4 d4 tr4 where b4: "resourceUserUpdate_password conn d3 = (r4, d4, tr4)"
    by (metis prod_cases3)
  obtain out d5 tr5 where b5: "resourceUserRead notFound conn d4 = (out, d5, tr5)"
    by (metis prod_cases3)
  have k3: "callsOf kind tr3 = []"
    using calls_temporary_password[of kind conn d] b3 assms by auto
  have k4: "callsOf kind tr4 = []"
    using calls_password[of kind conn d3] b4 assms by auto
  have k5: "callsOf kind tr5 = []"
    using calls_read[of kind notFound conn d4] b5 assms by auto
  show ?thesis
    using b1 b2 b3 b4 b5 k3 k4 k5
    by (cases r1; cases r2; cases r3; cases r4) (simp_all add: resourceUserUpdate_def)
qed

text \<open>
  Claim C7.  In an update, \<open>upd\<close> and \<open>del\<close> being what \<open>computeUserAttributesUpdate\<close> returns for
  the old and the new attributes: the update issues \<open>AdminUpdateUserAttributes\<close> once, with the
  expansion of \<open>upd\<close>, when the attributes have changed and \<open>upd\<close> is not empty, and not at all
  otherwise; it issues \<open>AdminDeleteUserAttributes\<close> once, with the expansion of \<open>del\<close>, when the
  attributes have changed, \<open>del\<close> is not empty and the call before it has not failed, and not
  at all otherwise.  So an empty \<open>upd\<close> means no \<open>AdminUpdateUserAttributes\<close> call and an empty
  \<open>del\<close> no \<open>AdminDeleteUserAttributes\<close> call, and there are at most two such calls.
\<close>

theorem update_attribute_calls:
  "case attributesChange d of
     (upd, del) \<Rightarrow>
       callsOf isAdminUpdateUserAttributes (snd (snd (resourceUserUpdate notFound conn d))) =
         (if HasChangeMap attributes d \<and> upd \<noteq> []
          then [AdminUpdateUserAttributes (username (Values d)) (user_pool_id (Values d))
                  (expandAttribute upd)
                  (if client_metadata (Values d) \<noteq> []
                   then Some (expandUserClientMetadata (client_metadata (Values d))) else None)]
          else [])
       \<and> callsOf isAdminDeleteUserAttributes (snd (snd (resourceUserUpdate notFound conn d))) =
         (if HasChangeMap attributes d \<and> del \<noteq> [] \<and> fst (resourceUserUpdate_upsert conn d upd) = None
          then [AdminDeleteUserAttributes (username (Values d)) (user_pool_id (Values d))
                  (expandUserAttributesDelete del)]
          else [])
       \<and> (upd = [] \<longrightarrow>
            callsOf isAdminUpdateUserAttributes (snd (snd (resourceUserUpdate notFound conn d))) = [])
       \<and> (del = [] \<longrightarrow>
            callsOf isAdminDeleteUserAttributes (snd (snd (resourceUserUpdate notFound conn d))) = [])"
proof -
  obtain upd del where c: "attributesChange d = (upd, del)" by fastforce
  have u: "callsOf isAdminUpdateUserAttributes (snd (snd (resourceUserUpdate notFound conn d))) =
         (if HasChangeMap attributes d \<and> upd \<noteq> []
          then [AdminUpdateUserAttributes (username (Values d)) (user_pool_id (Values d))
                  (expandAttribute upd)
                  (if client_metadata (Values d) \<noteq> []
                   then Some (expandUserClientMetadata (client_metadata (Values d))) else None)]
          else [])"
    using c by (simp add: update_calls calls_attributes calls_upsert calls_delete calls_enabled)
  have e: "callsOf isAdminDeleteUserAttributes (snd (snd (resourceUserUpdate notFound conn d))) =
         (if HasChangeMap attributes d \<and> del \<noteq> [] \<and> fst (resourceUserUpdate_upsert conn d upd) = None
          then [AdminDeleteUserAttributes (username (Values d)) (user_pool_id (Values d))
                  (expandUserAttributesDelete del)]
          else [])"
    using c by (simp add: update_calls calls_attributes calls_upsert calls_delete calls_enabled)
  show ?thesis unfolding c using u e by simp
qed

text \<open>
  From \<open>{"nickname": "a"}\<close> to \<open>{"nickname": "b", "locale": "en"}\<close>: one call that sets both
  attributes, and no call that deletes one.
\<close>

theorem update_attribute_calls_witness:
  "attributesChange (resourceData ''pool-1/alice'' False
       (aliceAttrs\<lparr>attributes := [(''nickname'', ''a'')]\<rparr>)
       (aliceAttrs\<lparr>attributes := [(''nickname'', ''b''), (''locale'', ''en'')]\<rparr>))
     = ([(''nickname'', ''b''), (''locale'', ''en'')], [])
   \<and> callsOf isAdminUpdateUserAttributes (snd (snd (resourceUserUpdate NotFound okConn
       (resourceData ''pool-1/alice'' False
         (aliceAttrs\<lparr>attributes := [(''nickname'', ''a'')]\<rparr>)
         (aliceAttrs\<lparr>attributes := [(''nickname'', ''b''), (''locale'', ''en'')]\<rparr>)))))
     = [AdminUpdateUserAttributes ''alice'' ''pool-1''
          [AttributeType (Some ''nickname'') (Some ''b''), AttributeType (Some ''locale'') (Some ''en'')]
          None]
   \<and> callsOf isAdminDeleteUserAttributes (snd (snd (resourceUserUpdate NotFound okConn
       (resourceData ''pool-1/alice'' False
         (aliceAttrs\<lparr>attributes := [(''nickname'', ''a'')]\<rparr>)
         (aliceAttrs\<lparr>attributes := [(''nickname'', ''b''), (''locale'', ''en'')]\<rparr>)))))
     = []"
  using update_attribute_calls[where notFound = NotFound and conn = okConn and d = "resourceData ''pool-1/alice'' False
         (aliceAttrs\<lparr>attributes := [(''nickname'', ''a'')]\<rparr>)
         (aliceAttrs\<lparr>attributes := [(''nickname'', ''b''), (''locale'', ''en'')]\<rparr>)"]
  by (simp add: handler_defs example_defs expandAttribute_def expandName_def
      UserAttributeKeyMatchesStandardAttribute_def standardAttributeKeys_def)

text \<open>
  Claim C8.  An update issues \<open>AdminEnableUser\<close> or \<open>AdminDisableUser\<close> only when \<open>enabled\<close> has
  changed: when the old and the new value are the same (as when \<open>enabled = true\<close> is set for a
  user that is enabled) its trace holds no such call.  When \<open>enabled\<close> has changed and the
  update of the attributes before it has not failed, it issues exactly one of the two, the
  one for the new value.
\<close>

theorem update_enable_disable_calls:
  "callsOf isEnableOrDisable (snd (snd (resourceUserUpdate notFound conn d))) =
     (if HasChange enabled d \<and> fst (resourceUserUpdate_attributes conn d) = None
      then [if enabled (Values d)
            then AdminEnableUser (username (Values d)) (user_pool_id (Values d))
            else AdminDisableUser (username (Values d)) (user_pool_id (Values d))]
      else [])
   \<and> (\<not> HasChange enabled d \<longrightarrow>
        callsOf isEnableOrDisable (snd (snd (resourceUserUpdate notFound conn d))) = [])"
  by (simp add: update_calls calls_attributes calls_upsert calls_delete calls_enabled)

text \<open>
  An update of an attribute of an enabled user that stays enabled makes no such call;
  enabling a disabled user makes the one call \<open>AdminEnableUser\<close>.
\<close>

theorem update_enable_disable_calls_witness:
  "\<not> HasChange enabled (resourceData ''pool-1/alice'' False
         (aliceAttrs\<lparr>attributes := [(''nickname'', ''a'')]\<rparr>)
         (aliceAttrs\<lparr>attributes := [(''nickname'', ''b'')]\<rparr>))
   \<and> enabled (Values (resourceData ''pool-1/alice'' False
         (aliceAttrs\<lparr>attributes := [(''nickname'', ''a'')]\<rparr>)
         (aliceAttrs\<lparr>attributes := [(''nickname'', ''b'')]\<rparr>)))
   \<and> callsOf isEnableOrDisable (snd (snd (resourceUserUpdate NotFound okConn
       (resourceData ''pool-1/alice'' False
         (aliceAttrs\<lparr>attributes := [(''nickname'', ''a'')]\<rparr>)
         (aliceAttrs\<lparr>attributes := [(''nickname'', ''b'')]\<rparr>)))))
     = []
   \<and> callsOf isEnableOrDisable (snd (snd (resourceUserUpdate NotFound okConn
       (resourceData ''pool-1/alice'' False (aliceAttrs\<lparr>enabled := False\<rparr>) aliceAttrs))))
     = [AdminEnableUser ''alice'' ''pool-1'']"
  using update_enable_disable_calls[where notFound = NotFound and conn = okConn and d = "resourceData ''pool-1/alice'' False
         (aliceAttrs\<lparr>attributes := [(''nickname'', ''a'')]\<rparr>)
         (aliceAttrs\<lparr>attributes := [(''nickname'', ''b'')]\<rparr>)"]
    update_enable_disable_calls[where notFound = NotFound and conn = okConn
      and d = "resourceData ''pool-1/alice'' False (aliceAttrs\<lparr>enabled := False\<rparr>) aliceAttrs"]
  by (simp add: handler_defs example_defs)

section \<open>Remote calls that fail\<close>

lemma failed_simps [simp]:
  "failed [] = False" "failed (tr1 @ tr2) = (failed tr1 \<or> failed tr2)"
  "failed ((c, err) # tr) = (err \<noteq> None \<or> failed tr)"
  by (simp_all add: failed_def)

text \<open>Each block returns diagnostics exactly when its remote call has failed.\<close>

lemma HasError_AppendErrorf [simp]: "HasError (AppendErrorf [] m e)"
  by (simp add: HasError_def AppendErrorf_def)













lemma removedByRead_cong:
  "callsOf isAdminGetUser tr = [] \<Longrightarrow>
   removedByRead notFound conn d (tr @ tr') = removedByRead notFound conn d tr'"
  by (simp add: removedByRead_def)









end
